theory Spec2Isabelle
  imports Main "HOL-Library.Word"
begin

unbundle bit_operations_syntax

section \<open>The gofer client (pkg/sentry/fsimpl/gofer/gofer.go): data model\<close>

text \<open>
  Errors are values. An errno returned by the code is one constructor each; an error
  that an external collaborator (the 9P server, the mount, a host syscall) hands back
  is \<open>Errno n\<close>; a Go panic (a fault of the process) is \<open>Panic msg\<close>.
\<close>

datatype error = EPERM | EIO | EACCES | EOPNOTSUPP | Errno nat | Panic string

text \<open>\<open>InteropMode\<close> (gofer.go, lines 150-205).\<close>

datatype InteropMode = InteropModeExclusive | InteropModeWritethrough | InteropModeShared

text \<open>
  \<open>filesystemOptions\<close> (gofer.go, lines 112-148): the fields read by the operations
  modelled here.
\<close>

record filesystemOptions =
  interop :: InteropMode
  maxCachedDentries :: "64 word"
  overlayfsStaleRead :: bool

text \<open>
  A \<open>p9file\<close> is a 9P fid; the nil file is \<open>None\<close>. A \<open>handle\<close> (gofer.go uses
  \<open>handle.file\<close> and \<open>handle.fd\<close>; \<open>fd\<close> is an int32, \<open>-1\<close> when there is no host
  file descriptor).
\<close>

type_synonym p9file = "nat option"

record handle =
  file_h :: p9file
  fd :: "32 word"

text \<open>
  A byte range \<open>[start, end)\<close> of a file (\<open>memmap.MappableRange\<close>), offsets being
  uint64.
\<close>

type_synonym range = "64 word \<times> 64 word"

text \<open>
  The \<open>dentry\<close> struct (gofer.go, lines 443-556). Pointers to dentries are indices
  into the heap of the world below; \<open>parent\<close> and \<open>disowned\<close> are what
  \<open>vfsd.Parent()\<close> and \<open>vfsd.IsDisowned()\<close> return. \<open>refs\<close> is an int64, read
  signed. The field \<open>size\<close> is called \<open>size_d\<close>, the field \<open>file\<close> is
  \<open>file_d\<close>. The three range containers (\<open>cache\<close>, \<open>dirty\<close>, \<open>mappings\<close>) are
  kept as lists of the byte ranges they hold.
\<close>

record dentry =
  parent :: "nat option"
  disowned :: bool
  refs :: "64 word"
  file_d :: p9file
  deleted :: "32 word"
  cached :: bool
  ino :: "64 word"
  mode :: "32 word"
  uid :: "32 word"
  gid :: "32 word"
  blockSize :: "32 word"
  atime :: "64 word"
  mtime :: "64 word"
  ctime :: "64 word"
  btime :: "64 word"
  size_d :: "64 word"
  nlink :: "32 word"
  mappings :: "range list"
  handle :: handle
  handleReadable :: bool
  handleWritable :: bool
  cache :: "range list"
  dirty :: "range list"

section \<open>Reference counting\<close>

text \<open>
  \<open>dentry.IncRef\<close> (lines 855-859): an unconditional atomic increment.
\<close>

definition IncRef :: "dentry \<Rightarrow> dentry" where
  "IncRef d = d\<lparr>refs := refs d + 1\<rparr>"

text \<open>
  \<open>dentry.TryIncRef\<close> (lines 862-872). Run without interference from other threads
  the compare-and-swap succeeds at the first iteration, so the loop body runs once:
  the result is the returned boolean and the dentry afterwards.
\<close>

definition TryIncRef :: "dentry \<Rightarrow> bool \<times> dentry" where
  "TryIncRef d =
     (let r = refs d in
      if r \<le>s 0 then (False, d)
      else (True, d\<lparr>refs := r + 1\<rparr>))"

section \<open>Collaborators outside gofer.go\<close>

text \<open>
  Modelled from the spec: the \<open>STATX_*\<close> bits of the stat mask (section 6, "a compact
  bitset naming the attributes") and the other constants of package \<open>linux\<close>, which is
  not part of the sources at hand. Each \<open>STATX_*\<close> name is one bit of a uint32; the
  positions are those of the Linux statx interface.
\<close>

definition STATX_TYPE :: "32 word" where "STATX_TYPE = 0x1"
definition STATX_MODE :: "32 word" where "STATX_MODE = 0x2"
definition STATX_NLINK :: "32 word" where "STATX_NLINK = 0x4"
definition STATX_UID :: "32 word" where "STATX_UID = 0x8"
definition STATX_GID :: "32 word" where "STATX_GID = 0x10"
definition STATX_ATIME :: "32 word" where "STATX_ATIME = 0x20"
definition STATX_MTIME :: "32 word" where "STATX_MTIME = 0x40"
definition STATX_CTIME :: "32 word" where "STATX_CTIME = 0x80"
definition STATX_INO :: "32 word" where "STATX_INO = 0x100"
definition STATX_SIZE :: "32 word" where "STATX_SIZE = 0x200"
definition STATX_BLOCKS :: "32 word" where "STATX_BLOCKS = 0x400"
definition STATX_BTIME :: "32 word" where "STATX_BTIME = 0x800"

definition UTIME_NOW :: "32 word" where "UTIME_NOW = 0x3FFFFFFF"
definition AT_STATX_DONT_SYNC :: "32 word" where "AT_STATX_DONT_SYNC = 0x4000"
definition S_IFMT :: "32 word" where "S_IFMT = 0xF000"
definition XATTR_USER_PREFIX :: string where "XATTR_USER_PREFIX = ''user.''"

text \<open>\<open>linux.StatxTimestamp\<close> and \<open>linux.Statx\<close>: the fields gofer.go reads and writes.\<close>

record StatxTimestamp =
  Sec :: "64 word"
  Nsec :: "32 word"

record Statx =
  Mask :: "32 word"
  Blksize :: "32 word"
  Nlink :: "32 word"
  UID :: "32 word"
  GID :: "32 word"
  Mode :: "16 word"
  Ino :: "64 word"
  Size :: "64 word"
  Blocks :: "64 word"
  Atime :: StatxTimestamp
  Btime :: StatxTimestamp
  Ctime :: StatxTimestamp
  Mtime :: StatxTimestamp

text \<open>The zero value of a Go struct (\<open>var stat linux.Statx\<close>).\<close>

definition zero_StatxTimestamp :: StatxTimestamp where
  "zero_StatxTimestamp = \<lparr>Sec = 0, Nsec = 0\<rparr>"

definition zero_Statx :: Statx where
  "zero_Statx = \<lparr>Mask = 0, Blksize = 0, Nlink = 0, UID = 0, GID = 0, Mode = 0, Ino = 0,
     Size = 0, Blocks = 0, Atime = zero_StatxTimestamp, Btime = zero_StatxTimestamp,
     Ctime = zero_StatxTimestamp, Mtime = zero_StatxTimestamp\<rparr>"

text \<open>
  Modelled from the spec: the timestamp conversions of the gofer package (its file
  time.go is not part of the sources at hand). The spec (section 3) keeps a dentry's
  timestamps as nanoseconds since the Unix epoch in an int64; a statx timestamp is
  seconds and nanoseconds. Go's \<open>/\<close> and \<open>%\<close> on int64 truncate towards zero.
\<close>

definition go_quot :: "int \<Rightarrow> int \<Rightarrow> int" where
  "go_quot a b = sgn a * sgn b * (\<bar>a\<bar> div \<bar>b\<bar>)"

definition go_rem :: "int \<Rightarrow> int \<Rightarrow> int" where
  "go_rem a b = a - b * go_quot a b"

definition statxTimestampFromDentry :: "64 word \<Rightarrow> StatxTimestamp" where
  "statxTimestampFromDentry ns =
     \<lparr>Sec = word_of_int (go_quot (sint ns) 1000000000),
      Nsec = word_of_int (go_rem (sint ns) 1000000000)\<rparr>"

definition dentryTimestampFromStatx :: "StatxTimestamp \<Rightarrow> 64 word" where
  "dentryTimestampFromStatx ts = Sec ts * 1000000000 + ucast (Nsec ts)"

definition dentryTimestampFromP9 :: "64 word \<Rightarrow> 64 word \<Rightarrow> 64 word" where
  "dentryTimestampFromP9 s ns = s * 1000000000 + ns"

text \<open>
  \<open>p9.AttrMask\<close> and \<open>p9.Attr\<close> (the reply of a getattr), \<open>p9.SetAttrMask\<close> and
  \<open>p9.SetAttr\<close> (the request of a setattr): the fields gofer.go names. The field names
  carry a prefix, since a record field is a constant of the theory.
\<close>

record AttrMask =
  am_Mode :: bool
  am_NLink :: bool
  am_UID :: bool
  am_GID :: bool
  am_ATime :: bool
  am_MTime :: bool
  am_CTime :: bool
  am_Size :: bool
  am_BTime :: bool

record Attr =
  a_Mode :: "32 word"
  a_UID :: "32 word"
  a_GID :: "32 word"
  a_NLink :: "64 word"
  a_Size :: "64 word"
  a_BlockSize :: "64 word"
  a_ATimeSeconds :: "64 word"
  a_ATimeNanoSeconds :: "64 word"
  a_MTimeSeconds :: "64 word"
  a_MTimeNanoSeconds :: "64 word"
  a_CTimeSeconds :: "64 word"
  a_CTimeNanoSeconds :: "64 word"
  a_BTimeSeconds :: "64 word"
  a_BTimeNanoSeconds :: "64 word"

record SetAttrMask =
  sm_Permissions :: bool
  sm_UID :: bool
  sm_GID :: bool
  sm_Size :: bool
  sm_ATime :: bool
  sm_MTime :: bool
  sm_ATimeNotSystemTime :: bool
  sm_MTimeNotSystemTime :: bool

record SetAttr =
  sa_Permissions :: "32 word"
  sa_UID :: "32 word"
  sa_GID :: "32 word"
  sa_Size :: "64 word"
  sa_ATimeSeconds :: "64 word"
  sa_ATimeNanoSeconds :: "64 word"
  sa_MTimeSeconds :: "64 word"
  sa_MTimeNanoSeconds :: "64 word"

text \<open>
  What an operation does to the world outside the dentry, in the order it does it:
  calls to the 9P server (\<open>Ev_getAttr\<close>, \<open>Ev_setAttr\<close>, the xattr calls,
  \<open>Ev_openHandle\<close>, \<open>Ev_handle_close\<close>, \<open>Ev_file_close\<close>, \<open>Ev_SyncDirtyAll\<close>),
  host system calls (\<open>Ev_Dup3\<close>, \<open>Ev_Close\<close>), calls into the VFS and the mapping
  subsystem, and the steps of the dentry cache that the theorems below count.
\<close>

datatype event =
    Ev_CheckSetStat
  | Ev_CheckBeginWrite
  | Ev_EndWrite
  | Ev_getAttr p9file
  | Ev_setAttr p9file SetAttrMask SetAttr
  | Ev_getXattr p9file string
  | Ev_setXattr p9file string
  | Ev_removeXattr p9file string
  | Ev_openHandle p9file bool bool bool
  | Ev_handle_close handle
  | Ev_file_close p9file
  | Ev_Dup3 "32 word" "32 word"
  | Ev_Close "32 word"
  | Ev_RegenerateMappings "32 word"
  | Ev_Warningf
  | Ev_SyncDirtyAll nat
  | Ev_ForceDeleteDentry nat
  | Ev_checkCachingLocked nat
  | Ev_evict nat
  | Ev_destroyLocked nat

subsection \<open>Page rounding and the range containers\<close>

text \<open>
  Modelled from the spec: \<open>pageRoundUp\<close> (pagemath.go of the gofer package is not part
  of the sources at hand). Scenario 3 of the spec rounds 3000 up to 4096 and leaves
  8192: the next multiple of the 4096-byte page, in uint64 arithmetic.
\<close>

definition pageRoundUp :: "64 word \<Rightarrow> 64 word" where
  "pageRoundUp x = (x + 4095) AND NOT 4095"

text \<open>
  \<open>remove_range (a, b)\<close> cuts the bytes of \<open>[a, b)\<close> out of one range; an empty
  \<open>[a, b)\<close> cuts nothing.
\<close>

definition remove_range :: "range \<Rightarrow> range \<Rightarrow> range list" where
  "remove_range ab se =
     (case ab of (a, b) \<Rightarrow> case se of (s, e) \<Rightarrow>
        if a < b then
          (if s < min e a then [(s, min e a)] else []) @
          (if max s b < e then [(max s b, e)] else [])
        else [(s, e)])"

definition remove_range_all :: "range \<Rightarrow> range list \<Rightarrow> range list" where
  "remove_range_all ab rs = concat (map (remove_range ab) rs)"

text \<open>
  Modelled from the spec: \<open>fsutil.FileRangeSet.Truncate\<close> (package fsutil is not part
  of the sources at hand). Section 4.B: "truncate (drops pages at and beyond a new
  size)"; scenario 3: truncating to 3000 drops the "cache pages beyond offset 4096".
  So the pages dropped are those that start at or after the new size rounded up to a
  page; when no page boundary at or after the new size exists in uint64, no page is
  dropped.
\<close>

definition Truncate :: "64 word \<Rightarrow> range list \<Rightarrow> range list" where
  "Truncate newend rs =
     (if newend \<le> 0xFFFFFFFFFFFFF000
      then concat (map (\<lambda>(s, e). if s < min e (pageRoundUp newend)
                                   then [(s, min e (pageRoundUp newend))] else []) rs)
      else rs)"

text \<open>
  Modelled from the spec: \<open>fsutil.DirtySet.KeepClean\<close> (section 4.B, "keep-clean over
  a range"; scenario 3, "DirtySet cleaned over [3000, 8192)"): nothing in the range
  stays dirty.
\<close>

definition KeepClean :: "range \<Rightarrow> range list \<Rightarrow> range list" where
  "KeepClean mr ds = remove_range_all mr ds"

text \<open>
  Modelled from the spec: \<open>memmap.MappingSet.Invalidate\<close> and \<open>InvalidateAll\<close> (package
  memmap is not part of the sources at hand). Section 4.C: "mappings over the
  truncated range are invalidated"; the code's own comment after the call: "We are now
  guaranteed that there are no translations of truncated pages". The field
  \<open>mappings\<close> of the model holds the file ranges that applications have mapped in;
  invalidating a range leaves none of it mapped in. The flag is \<open>InvalidatePrivate\<close>.
\<close>

definition Invalidate :: "range \<Rightarrow> bool \<Rightarrow> range list \<Rightarrow> range list" where
  "Invalidate mr invalidatePrivate ms = remove_range_all mr ms"

definition InvalidateAll :: "range list \<Rightarrow> range list" where
  "InvalidateAll ms = []"

text \<open>
  \<open>intersects r mr\<close>: the ranges \<open>r\<close> and \<open>mr\<close> have a byte in common.
\<close>

definition intersects :: "range \<Rightarrow> range \<Rightarrow> bool" where
  "intersects r mr = (fst r < snd r \<and> fst mr < snd mr \<and> fst r < snd mr \<and> fst mr < snd r)"

section \<open>Metadata: Stat and SetStat\<close>

text \<open>\<open>dentry.fileType\<close> (lines 706-708).\<close>

definition fileType :: "dentry \<Rightarrow> 32 word" where
  "fileType d = mode d AND S_IFMT"

text \<open>
  \<open>dentry.updateFromP9Attrs\<close> (lines 637-677). A file type that differs from the
  dentry's is a panic.
\<close>

definition updateFromP9Attrs :: "AttrMask \<Rightarrow> Attr \<Rightarrow> dentry \<Rightarrow> error + dentry" where
  "updateFromP9Attrs amask attr d =
     (if am_Mode amask \<and> a_Mode attr AND S_IFMT \<noteq> fileType d
      then Inl (Panic ''gofer.dentry file type changed'')
      else
        let d = (if am_Mode amask then d\<lparr>mode := a_Mode attr\<rparr> else d);
            d = (if am_UID amask then d\<lparr>uid := a_UID attr\<rparr> else d);
            d = (if am_GID amask then d\<lparr>gid := a_GID attr\<rparr> else d);
            d = (if a_BlockSize attr \<noteq> 0 then d\<lparr>blockSize := ucast (a_BlockSize attr)\<rparr> else d);
            d = (if am_ATime amask
                 then d\<lparr>atime := dentryTimestampFromP9 (a_ATimeSeconds attr) (a_ATimeNanoSeconds attr)\<rparr>
                 else d);
            d = (if am_MTime amask
                 then d\<lparr>mtime := dentryTimestampFromP9 (a_MTimeSeconds attr) (a_MTimeNanoSeconds attr)\<rparr>
                 else d);
            d = (if am_CTime amask
                 then d\<lparr>ctime := dentryTimestampFromP9 (a_CTimeSeconds attr) (a_CTimeNanoSeconds attr)\<rparr>
                 else d);
            d = (if am_BTime amask
                 then d\<lparr>btime := dentryTimestampFromP9 (a_BTimeSeconds attr) (a_BTimeNanoSeconds attr)\<rparr>
                 else d);
            d = (if am_NLink amask then d\<lparr>nlink := ucast (a_NLink attr)\<rparr> else d);
            d = (if am_Size amask then d\<lparr>size_d := a_Size attr\<rparr> else d)
        in Inr d)"

text \<open>
  \<open>dentry.updateFromGetattr\<close> (lines 679-704): the getattr goes to the open handle's
  fid when there is one, to the dentry's own fid otherwise. \<open>getAttr\<close> is the server's
  answer.
\<close>

definition updateFromGetattr ::
  "(p9file \<Rightarrow> error + AttrMask \<times> Attr) \<Rightarrow> dentry \<Rightarrow> (error + dentry) \<times> event list" where
  "updateFromGetattr getAttr d =
     (let f = (if file_h (handle d) \<noteq> None then file_h (handle d) else file_d d) in
      case getAttr f of
        Inl err \<Rightarrow> (Inl err, [Ev_getAttr f])
      | Inr (attrMask, attr) \<Rightarrow> (updateFromP9Attrs attrMask attr d, [Ev_getAttr f]))"

text \<open>\<open>dentry.statTo\<close> (lines 710-727), writing into the snapshot \<open>stat\<close>.\<close>

definition statTo :: "dentry \<Rightarrow> Statx \<Rightarrow> Statx" where
  "statTo d stat =
     (let stat = stat\<lparr>Mask := STATX_TYPE OR STATX_MODE OR STATX_NLINK OR STATX_UID OR STATX_GID
                        OR STATX_ATIME OR STATX_MTIME OR STATX_CTIME OR STATX_INO OR STATX_SIZE
                        OR STATX_BLOCKS OR STATX_BTIME\<rparr>;
          stat = stat\<lparr>Blksize := blockSize d\<rparr>;
          stat = stat\<lparr>Nlink := nlink d\<rparr>;
          stat = stat\<lparr>UID := uid d\<rparr>;
          stat = stat\<lparr>GID := gid d\<rparr>;
          stat = stat\<lparr>Mode := ucast (mode d)\<rparr>;
          stat = stat\<lparr>Ino := ino d\<rparr>;
          stat = stat\<lparr>Size := size_d d\<rparr>;
          stat = stat\<lparr>Blocks := (Size stat + 511) div 512\<rparr>;
          stat = stat\<lparr>Atime := statxTimestampFromDentry (atime d)\<rparr>;
          stat = stat\<lparr>Btime := statxTimestampFromDentry (btime d)\<rparr>;
          stat = stat\<lparr>Ctime := statxTimestampFromDentry (ctime d)\<rparr>;
          stat = stat\<lparr>Mtime := statxTimestampFromDentry (mtime d)\<rparr>
      in stat)"

text \<open>
  \<open>fileDescription.Stat\<close> (lines 1201-1214). \<open>vfs.StatOptions\<close> has the requested
  \<open>Mask\<close> and \<open>Sync\<close>. The result is the snapshot or the error, the dentry afterwards
  and the calls made.
\<close>

record StatOptions =
  so_Mask :: "32 word"
  so_Sync :: "32 word"

definition validMask :: "32 word" where
  "validMask = STATX_MODE OR STATX_UID OR STATX_GID OR STATX_ATIME OR STATX_MTIME OR STATX_CTIME
     OR STATX_SIZE OR STATX_BLOCKS OR STATX_BTIME"

definition Stat ::
  "filesystemOptions \<Rightarrow> (p9file \<Rightarrow> error + AttrMask \<times> Attr) \<Rightarrow> dentry \<Rightarrow> StatOptions
     \<Rightarrow> (error + Statx) \<times> dentry \<times> event list" where
  "Stat fsopts getAttr d opts =
     (if interop fsopts = InteropModeShared \<and> so_Mask opts AND validMask \<noteq> 0
         \<and> so_Sync opts \<noteq> AT_STATX_DONT_SYNC
      then
        (case updateFromGetattr getAttr d of
           (Inl err, evs) \<Rightarrow> (Inl err, d, evs)
         | (Inr d', evs) \<Rightarrow> (Inr (statTo d' zero_Statx), d', evs))
      else (Inr (statTo d zero_Statx), d, []))"

text \<open>
  What \<open>dentry.setStat\<close> gets from outside: the verdicts of \<open>vfs.CheckSetStat\<close> and of
  \<open>mnt.CheckBeginWrite\<close> (\<open>None\<close> is Go's nil error), the server's answer to the setattr,
  and the filesystem clock's \<open>Now().Nanoseconds()\<close>.
\<close>

record setStat_env =
  CheckSetStat :: "error option"
  CheckBeginWrite :: "error option"
  setAttr :: "error option"
  clock_Now :: "64 word"

text \<open>
  Lines 744-756 of \<open>setStat\<close>: which timestamps are set locally, and the request as
  changed for the server (\<open>stat\<close> is a pointer, the function writes through it).
\<close>

definition setStat_local_times :: "filesystemOptions \<Rightarrow> Statx \<Rightarrow> bool \<times> bool \<times> Statx" where
  "setStat_local_times fsopts stat =
     (if interop fsopts \<noteq> InteropModeShared then
        let setLocalAtime = (Mask stat AND STATX_ATIME \<noteq> 0);
            setLocalMtime = (Mask stat AND STATX_MTIME \<noteq> 0);
            stat = stat\<lparr>Mask := Mask stat AND NOT (STATX_ATIME OR STATX_MTIME)\<rparr>
        in if \<not> setLocalMtime \<and> Mask stat AND STATX_SIZE \<noteq> 0
           then (setLocalAtime, True, stat\<lparr>Mtime := (Mtime stat)\<lparr>Nsec := UTIME_NOW\<rparr>\<rparr>)
           else (setLocalAtime, setLocalMtime, stat)
      else (False, False, stat))"

text \<open>Lines 760-777: the setattr request sent to the server.\<close>

definition setStat_request :: "Statx \<Rightarrow> SetAttrMask \<times> SetAttr" where
  "setStat_request stat =
     (\<lparr>sm_Permissions = (Mask stat AND STATX_MODE \<noteq> 0),
       sm_UID = (Mask stat AND STATX_UID \<noteq> 0),
       sm_GID = (Mask stat AND STATX_GID \<noteq> 0),
       sm_Size = (Mask stat AND STATX_SIZE \<noteq> 0),
       sm_ATime = (Mask stat AND STATX_ATIME \<noteq> 0),
       sm_MTime = (Mask stat AND STATX_MTIME \<noteq> 0),
       sm_ATimeNotSystemTime = (Nsec (Atime stat) \<noteq> UTIME_NOW),
       sm_MTimeNotSystemTime = (Nsec (Mtime stat) \<noteq> UTIME_NOW)\<rparr>,
      \<lparr>sa_Permissions = ucast (Mode stat),
       sa_UID = UID stat,
       sa_GID = GID stat,
       sa_Size = Size stat,
       sa_ATimeSeconds = Sec (Atime stat),
       sa_ATimeNanoSeconds = ucast (Nsec (Atime stat)),
       sa_MTimeSeconds = Sec (Mtime stat),
       sa_MTimeNanoSeconds = ucast (Nsec (Mtime stat))\<rparr>)"

text \<open>
  Lines 814-846: the size is stored; on a shrink the mappings between the two page
  ends are invalidated, the cache is truncated and the dirty set is cleaned.
\<close>

definition setStat_size :: "Statx \<Rightarrow> dentry \<Rightarrow> dentry" where
  "setStat_size stat d =
     (let oldSize = size_d d;
          d = d\<lparr>size_d := Size stat\<rparr>
      in if size_d d < oldSize then
           let oldpgend = pageRoundUp oldSize;
               newpgend = pageRoundUp (size_d d);
               d = (if oldpgend \<noteq> newpgend
                    then d\<lparr>mappings := Invalidate (newpgend, oldpgend) True (mappings d)\<rparr>
                    else d);
               d = d\<lparr>cache := Truncate (size_d d) (cache d)\<rparr>;
               d = d\<lparr>dirty := KeepClean (size_d d, oldpgend) (dirty d)\<rparr>
           in d
         else d)"

text \<open>Lines 789-847: the local update of the cached metadata, outside Shared mode.\<close>

definition setStat_update :: "64 word \<Rightarrow> bool \<Rightarrow> bool \<Rightarrow> Statx \<Rightarrow> dentry \<Rightarrow> dentry" where
  "setStat_update now setLocalAtime setLocalMtime stat d =
     (let d = (if Mask stat AND STATX_MODE \<noteq> 0
               then d\<lparr>mode := fileType d OR ucast (Mode stat)\<rparr> else d);
          d = (if Mask stat AND STATX_UID \<noteq> 0 then d\<lparr>uid := UID stat\<rparr> else d);
          d = (if Mask stat AND STATX_GID \<noteq> 0 then d\<lparr>gid := GID stat\<rparr> else d);
          d = (if setLocalAtime
               then (if Nsec (Atime stat) = UTIME_NOW then d\<lparr>atime := now\<rparr>
                     else d\<lparr>atime := dentryTimestampFromStatx (Atime stat)\<rparr>)
               else d);
          d = (if setLocalMtime
               then (if Nsec (Mtime stat) = UTIME_NOW then d\<lparr>mtime := now\<rparr>
                     else d\<lparr>mtime := dentryTimestampFromStatx (Mtime stat)\<rparr>)
               else d);
          d = d\<lparr>ctime := now\<rparr>
      in if Mask stat AND STATX_SIZE \<noteq> 0 then setStat_size stat d else d)"

text \<open>
  \<open>dentry.setStat\<close> (lines 729-848). The result is the error returned (\<open>None\<close> is
  nil), the dentry afterwards, and the calls made, in order; the deferred
  \<open>mnt.EndWrite\<close> runs on every return after a successful \<open>CheckBeginWrite\<close>.
\<close>

definition setStat ::
  "filesystemOptions \<Rightarrow> setStat_env \<Rightarrow> dentry \<Rightarrow> Statx \<Rightarrow> error option \<times> dentry \<times> event list" where
  "setStat fsopts env d stat =
     (if Mask stat = 0 then (None, d, [])
      else if Mask stat AND NOT (STATX_MODE OR STATX_UID OR STATX_GID OR STATX_ATIME
                                  OR STATX_MTIME OR STATX_SIZE) \<noteq> 0
      then (Some EPERM, d, [])
      else case CheckSetStat env of
        Some err \<Rightarrow> (Some err, d, [Ev_CheckSetStat])
      | None \<Rightarrow>
       (case CheckBeginWrite env of
          Some err \<Rightarrow> (Some err, d, [Ev_CheckSetStat, Ev_CheckBeginWrite])
        | None \<Rightarrow>
         (case setStat_local_times fsopts stat of (setLocalAtime, setLocalMtime, stat) \<Rightarrow>
            let req = setStat_request stat;
                sent = (if Mask stat \<noteq> 0 then [Ev_setAttr (file_d d) (fst req) (snd req)] else [])
            in if Mask stat \<noteq> 0 \<and> setAttr env \<noteq> None
               then (setAttr env, d, [Ev_CheckSetStat, Ev_CheckBeginWrite] @ sent @ [Ev_EndWrite])
               else if interop fsopts = InteropModeShared
               then (None, d, [Ev_CheckSetStat, Ev_CheckBeginWrite] @ sent @ [Ev_EndWrite])
               else (None,
                     setStat_update (clock_Now env) setLocalAtime setLocalMtime stat d,
                     [Ev_CheckSetStat, Ev_CheckBeginWrite] @ sent @ [Ev_EndWrite]))))"

section \<open>Extended attributes\<close>

text \<open>
  Modelled from the spec: \<open>vfs.GenericCheckPermissions\<close> (package vfs is not part of
  the sources at hand). Section 4.C: a "standard POSIX check against the cached
  mode/uid/gid (no server round trip)": the permission bits of the owner, of the group
  or of the others are chosen by the caller's identity, every requested access must
  be among them, and a caller with the override capability passes anyway. The access
  types are \<open>MayExec\<close>, \<open>MayWrite\<close>, \<open>MayRead\<close>.
\<close>

record Credentials =
  EffectiveKUID :: "32 word"
  EffectiveKGID :: "32 word"
  ExtraKGIDs :: "32 word list"
  HasCapability_DAC_OVERRIDE :: bool

definition MayExec :: "32 word" where "MayExec = 1"
definition MayWrite :: "32 word" where "MayWrite = 2"
definition MayRead :: "32 word" where "MayRead = 4"

definition GenericCheckPermissions ::
  "Credentials \<Rightarrow> 32 word \<Rightarrow> 32 word \<Rightarrow> 32 word \<Rightarrow> 32 word \<Rightarrow> error option" where
  "GenericCheckPermissions creds ats fmode kuid kgid =
     (let perms = fmode AND 0x1FF;
          perms = (if EffectiveKUID creds = kuid then drop_bit 6 perms
                   else if EffectiveKGID creds = kgid \<or> kgid \<in> set (ExtraKGIDs creds)
                   then drop_bit 3 perms
                   else perms)
      in if ats AND perms = ats then None
         else if HasCapability_DAC_OVERRIDE creds then None
         else Some EACCES)"

text \<open>\<open>dentry.checkPermissions\<close> (lines 850-852).\<close>

definition checkPermissions :: "dentry \<Rightarrow> Credentials \<Rightarrow> 32 word \<Rightarrow> error option" where
  "checkPermissions d creds ats = GenericCheckPermissions creds ats (mode d) (uid d) (gid d)"

text \<open>\<open>strings.HasPrefix\<close> of the Go library.\<close>

definition HasPrefix :: "string \<Rightarrow> string \<Rightarrow> bool" where
  "HasPrefix s pre = (take (length pre) s = pre)"

text \<open>
  \<open>dentry.getxattr\<close>, \<open>dentry.setxattr\<close>, \<open>dentry.removexattr\<close> (lines 1044-1072).
  The first argument is the server's answer to the call; the result is what the
  function returns and the calls made.
\<close>

record GetxattrOptions =
  gx_Name :: string
  gx_Size :: "64 word"

record SetxattrOptions =
  sx_Name :: string
  sx_Value :: string
  sx_Flags :: "32 word"

definition getxattr ::
  "(p9file \<Rightarrow> string \<Rightarrow> 64 word \<Rightarrow> error + string) \<Rightarrow> dentry \<Rightarrow> Credentials
     \<Rightarrow> GetxattrOptions \<Rightarrow> (error + string) \<times> event list" where
  "getxattr getXattr d creds opts =
     (case checkPermissions d creds MayRead of
        Some err \<Rightarrow> (Inl err, [])
      | None \<Rightarrow>
          if \<not> HasPrefix (gx_Name opts) XATTR_USER_PREFIX then (Inl EOPNOTSUPP, [])
          else (getXattr (file_d d) (gx_Name opts) (gx_Size opts),
                [Ev_getXattr (file_d d) (gx_Name opts)]))"

definition setxattr ::
  "(p9file \<Rightarrow> string \<Rightarrow> string \<Rightarrow> 32 word \<Rightarrow> error option) \<Rightarrow> dentry \<Rightarrow> Credentials
     \<Rightarrow> SetxattrOptions \<Rightarrow> error option \<times> event list" where
  "setxattr setXattr d creds opts =
     (case checkPermissions d creds MayWrite of
        Some err \<Rightarrow> (Some err, [])
      | None \<Rightarrow>
          if \<not> HasPrefix (sx_Name opts) XATTR_USER_PREFIX then (Some EOPNOTSUPP, [])
          else (setXattr (file_d d) (sx_Name opts) (sx_Value opts) (sx_Flags opts),
                [Ev_setXattr (file_d d) (sx_Name opts)]))"

definition removexattr ::
  "(p9file \<Rightarrow> string \<Rightarrow> error option) \<Rightarrow> dentry \<Rightarrow> Credentials \<Rightarrow> string
     \<Rightarrow> error option \<times> event list" where
  "removexattr removeXattr d creds name =
     (case checkPermissions d creds MayWrite of
        Some err \<Rightarrow> (Some err, [])
      | None \<Rightarrow>
          if \<not> HasPrefix name XATTR_USER_PREFIX then (Some EOPNOTSUPP, [])
          else (removeXattr (file_d d) name, [Ev_removeXattr (file_d d) name]))"

section \<open>The handle upgrade protocol\<close>

text \<open>
  What \<open>dentry.ensureSharedHandle\<close> gets from outside: the result of \<open>openHandle\<close>
  (the server-side open, with the host file descriptor it may pass), of
  \<open>syscall.Dup3\<close> and of \<open>hostFileMapper.RegenerateMappings\<close>.
\<close>

record handle_env =
  openHandle :: "p9file \<Rightarrow> bool \<Rightarrow> bool \<Rightarrow> bool \<Rightarrow> error + handle"
  Dup3 :: "32 word \<Rightarrow> 32 word \<Rightarrow> error option"
  RegenerateMappings :: "32 word \<Rightarrow> error option"

text \<open>Lines 1145-1148: "Switch to the new handle."\<close>

definition switch_handle :: "handle \<Rightarrow> bool \<Rightarrow> bool \<Rightarrow> dentry \<Rightarrow> dentry" where
  "switch_handle h wantReadable wantWritable d =
     d\<lparr>handle := h, handleReadable := wantReadable, handleWritable := wantWritable\<rparr>"

text \<open>
  \<open>dentry.ensureSharedHandle\<close> (lines 1075-1163), run without interference from other
  threads. The result is the error returned (\<open>None\<close> is nil), the dentry afterwards,
  and the calls made.
\<close>

definition ensureSharedHandle ::
  "filesystemOptions \<Rightarrow> handle_env \<Rightarrow> dentry \<Rightarrow> bool \<Rightarrow> bool \<Rightarrow> bool
     \<Rightarrow> error option \<times> dentry \<times> event list" where
  "ensureSharedHandle fsopts env d read write trunc =
     (if \<not> trunc \<and> (\<not> read \<or> handleReadable d) \<and> (\<not> write \<or> handleWritable d)
      then (None, d, [])
      else if (read \<and> \<not> handleReadable d) \<or> (write \<and> \<not> handleWritable d) \<or> trunc then
        let wantReadable = (handleReadable d \<or> read);
            wantWritable = (handleWritable d \<or> write);
            opened = [Ev_openHandle (file_d d) wantReadable wantWritable trunc]
        in case openHandle env (file_d d) wantReadable wantWritable trunc of
             Inl err \<Rightarrow> (Some err, d, opened)
           | Inr h \<Rightarrow>
               if file_h (handle d) \<noteq> None then
                 let haveOldFD = (0 \<le>s fd (handle d));
                     haveNewFD = (0 \<le>s fd h)
                 in if haveOldFD \<noteq> haveNewFD
                    then (Some EIO, d, opened @ [Ev_Warningf, Ev_handle_close h])
                    else if haveOldFD then
                      (case Dup3 env (fd h) (fd (handle d)) of
                         Some err \<Rightarrow>
                           (Some err, d,
                            opened @ [Ev_Dup3 (fd h) (fd (handle d)), Ev_Warningf, Ev_handle_close h])
                       | None \<Rightarrow>
                           let dupped = opened @ [Ev_Dup3 (fd h) (fd (handle d)), Ev_Close (fd h)];
                               h = h\<lparr>fd := fd (handle d)\<rparr>
                           in if overlayfsStaleRead fsopts then
                                (case RegenerateMappings env (fd h) of
                                   Some err \<Rightarrow>
                                     (Some err, d,
                                      dupped @ [Ev_RegenerateMappings (fd h), Ev_Warningf,
                                                Ev_handle_close h])
                                 | None \<Rightarrow>
                                     (None,
                                      (switch_handle h wantReadable wantWritable d)
                                        \<lparr>mappings := InvalidateAll (mappings d)\<rparr>,
                                      dupped @ [Ev_RegenerateMappings (fd h),
                                                Ev_file_close (file_h (handle d))]))
                              else
                                (None, switch_handle h wantReadable wantWritable d,
                                 dupped @ [Ev_file_close (file_h (handle d))]))
                    else (None, switch_handle h wantReadable wantWritable d, opened)
               else (None, switch_handle h wantReadable wantWritable d, opened)
      else (None, d, []))"

section \<open>The dentry cache: DecRef, checkCachingLocked, destroyLocked\<close>

text \<open>
  The \<open>filesystem\<close> struct (lines 64-110), with the heap of its dentries: a pointer to a
  dentry is an index into \<open>heap\<close>, and a pointer beyond it is a dangling one.
  \<open>cachedDentries\<close> is the LRU list, most recently used first (\<open>PushFront\<close> conses,
  \<open>Back\<close> is \<open>last\<close>); \<open>cachedDentriesLen\<close> is the uint64 counter the code keeps
  beside it; \<open>dentries\<close> is the set of all dentries; \<open>trace\<close> collects the events.
\<close>

record filesystem =
  opts :: filesystemOptions
  cachedDentries :: "nat list"
  cachedDentriesLen :: "64 word"
  dentries :: "nat set"
  heap :: "dentry list"
  trace :: "event list"

text \<open>
  The steps of the code below: \<open>emit\<close> records an event; \<open>upd\<close> writes through a
  dentry pointer; \<open>remove_cached\<close> is lines 903-905 (and 917-919, 937-939):
  \<open>cachedDentries.Remove\<close>, \<open>cachedDentriesLen--\<close>, \<open>cached = false\<close>;
  \<open>push_cached\<close> is lines 932-934.
\<close>

definition emit :: "event \<Rightarrow> filesystem \<Rightarrow> filesystem" where
  "emit e w = w\<lparr>trace := trace w @ [e]\<rparr>"

definition upd :: "nat \<Rightarrow> (dentry \<Rightarrow> dentry) \<Rightarrow> filesystem \<Rightarrow> filesystem" where
  "upd i f w = w\<lparr>heap := (heap w)[i := f (heap w ! i)]\<rparr>"

definition remove_cached :: "nat \<Rightarrow> filesystem \<Rightarrow> filesystem" where
  "remove_cached d w =
     upd d (\<lambda>x. x\<lparr>cached := False\<rparr>)
       (w\<lparr>cachedDentries := remove1 d (cachedDentries w),
          cachedDentriesLen := cachedDentriesLen w - 1\<rparr>)"

definition push_cached :: "nat \<Rightarrow> filesystem \<Rightarrow> filesystem" where
  "push_cached d w =
     upd d (\<lambda>x. x\<lparr>cached := True\<rparr>)
       (w\<lparr>cachedDentries := d # cachedDentries w,
          cachedDentriesLen := cachedDentriesLen w + 1\<rparr>)"

text \<open>
  Modelled from the spec: \<open>VirtualFilesystem.ForceDeleteDentry\<close> (package vfs is not
  part of the sources at hand). Section 4.D: the victim's VFS dentry is force-deleted
  "if still parented"; a deleted VFS dentry is disowned. \<open>force_delete_victim\<close> is
  lines 946-959.
\<close>

definition ForceDeleteDentry :: "nat \<Rightarrow> filesystem \<Rightarrow> filesystem" where
  "ForceDeleteDentry d w = emit (Ev_ForceDeleteDentry d) (upd d (\<lambda>x. x\<lparr>disowned := True\<rparr>) w)"

definition force_delete_victim :: "nat \<Rightarrow> filesystem \<Rightarrow> filesystem" where
  "force_delete_victim victim w =
     (if parent (heap w ! victim) \<noteq> None \<and> \<not> disowned (heap w ! victim)
      then ForceDeleteDentry victim w else w)"

text \<open>
  The body of \<open>destroyLocked\<close> before the parent's reference is dropped:
  \<open>release_handle\<close> is lines 982-999 (write the dirty pages back when the handle is
  writable, drop the cache, close the handle), \<open>release_file\<close> is lines 1000-1003,
  \<open>mark_destroyed\<close> is lines 971-1007 on a dentry whose \<open>refs\<close> is 0.
\<close>

definition release_handle :: "nat \<Rightarrow> filesystem \<Rightarrow> filesystem" where
  "release_handle d w =
     (if file_h (handle (heap w ! d)) \<noteq> None then
        let w = (if handleWritable (heap w ! d) then emit (Ev_SyncDirtyAll d) w else w);
            w = upd d (\<lambda>x. x\<lparr>cache := [], dirty := []\<rparr>) w
        in emit (Ev_handle_close (handle (heap w ! d))) w
      else w)"

definition release_file :: "nat \<Rightarrow> filesystem \<Rightarrow> filesystem" where
  "release_file d w =
     (if file_d (heap w ! d) \<noteq> None
      then upd d (\<lambda>x. x\<lparr>file_d := None\<rparr>) (emit (Ev_file_close (file_d (heap w ! d))) w)
      else w)"

definition mark_destroyed :: "nat \<Rightarrow> filesystem \<Rightarrow> filesystem" where
  "mark_destroyed d w =
     (let w = emit (Ev_destroyLocked d) (upd d (\<lambda>x. x\<lparr>refs := - 1\<rparr>) w);
          w = release_handle d w;
          w = release_file d w
      in w\<lparr>dentries := dentries w - {d}\<rparr>)"

text \<open>The dentries that are not destroyed yet: the measure of the recursion below.\<close>

definition live :: "filesystem \<Rightarrow> nat" where
  "live w = length (filter (\<lambda>x. refs x \<noteq> - 1) (heap w))"

text \<open>
  \<open>dentry.checkCachingLocked\<close> (lines 895-963) and \<open>dentry.destroyLocked\<close> (lines
  970-1018) call each other: destroying a dentry drops the reference it holds on its
  parent, and a parent that reaches 0 goes through \<open>checkCachingLocked\<close> in turn.
  Dereferencing a dangling pointer and the three panics of the code are \<open>Inl\<close>.
\<close>

function checkCachingLocked :: "nat \<Rightarrow> filesystem \<Rightarrow> error + filesystem"
  and destroyLocked :: "nat \<Rightarrow> filesystem \<Rightarrow> error + filesystem" where
  "checkCachingLocked d w0 =
     (if length (heap w0) \<le> d then Inl (Panic ''nil pointer dereference'')
      else
        let w = emit (Ev_checkCachingLocked d) w0 in
        if 0 <s refs (heap w ! d) then
          Inr (if cached (heap w ! d) then remove_cached d w else w)
        else if refs (heap w ! d) = - 1 then Inr w
        else if parent (heap w ! d) = None \<or> disowned (heap w ! d) then
          destroyLocked d (if cached (heap w ! d) then remove_cached d w else w)
        else if cached (heap w ! d) then
          Inr (w\<lparr>cachedDentries := d # remove1 d (cachedDentries w)\<rparr>)
        else
          let w = push_cached d w in
          if maxCachedDentries (opts w) < cachedDentriesLen w then
            let victim = last (cachedDentries w) in
            if length (heap w) \<le> victim then Inl (Panic ''nil pointer dereference'')
            else
              let w = emit (Ev_evict victim) (remove_cached victim w) in
              if refs (heap w ! victim) = 0
              then destroyLocked victim (force_delete_victim victim w)
              else Inr w
          else Inr w)"
| "destroyLocked d w0 =
     (if length (heap w0) \<le> d then Inl (Panic ''nil pointer dereference'')
      else if refs (heap w0 ! d) = 0 then
        let w = mark_destroyed d w0 in
        case parent (heap w ! d) of
          None \<Rightarrow> Inr w
        | Some p \<Rightarrow>
            if length (heap w) \<le> p then Inl (Panic ''nil pointer dereference'')
            else
              let r = refs (heap w ! p) - 1;
                  w = upd p (\<lambda>x. x\<lparr>refs := r\<rparr>) w
              in if r = 0 then checkCachingLocked p w
                 else if r <s 0
                 then Inl (Panic ''gofer.dentry.DecRef() called without holding a reference'')
                 else Inr w
      else if refs (heap w0 ! d) = - 1
      then Inl (Panic ''dentry.destroyLocked() called on already destroyed dentry'')
      else Inl (Panic ''dentry.destroyLocked() called with references on the dentry''))"
  by pat_completeness auto

text \<open>The reference counts of the heap, for the termination proof.\<close>

definition refs_of :: "filesystem \<Rightarrow> 64 word list" where
  "refs_of w = map refs (heap w)"

lemma live_refs_of: "live w = length (filter (\<lambda>r. r \<noteq> - 1) (refs_of w))"
  by (simp add: live_def refs_of_def filter_map comp_def)

lemma filter_update_same:
  "P y = P (xs ! i) \<Longrightarrow> length (filter P (xs[i := y])) = length (filter P xs)"
proof (induction xs arbitrary: i)
  case Nil
  then show ?case by simp
next
  case (Cons x xs)
  then show ?case by (cases i) auto
qed

lemma filter_update_less:
  "i < length xs \<Longrightarrow> P (xs ! i) \<Longrightarrow> \<not> P y \<Longrightarrow>
   length (filter P (xs[i := y])) < length (filter P xs)"
proof (induction xs arbitrary: i)
  case Nil
  then show ?case by simp
next
  case (Cons x xs)
  then show ?case by (cases i) auto
qed

lemma refs_of_upd: "refs_of (upd i f w) = (refs_of w)[i := refs (f (heap w ! i))]"
  by (simp add: refs_of_def upd_def map_update)

lemma refs_of_upd_keep:
  "(\<And>x. refs (f x) = refs x) \<Longrightarrow> refs_of (upd i f w) = refs_of w"
proof -
  assume k: "\<And>x. refs (f x) = refs x"
  have "(map refs (heap w))[i := refs (heap w ! i)] = map refs (heap w)"
    by (cases "i < length (heap w)") (simp_all add: list_update_same_conv list_update_beyond)
  then show ?thesis by (simp add: refs_of_def upd_def map_update k)
qed

lemma refs_of_fields [simp]:
  "refs_of (w\<lparr>cachedDentries := a\<rparr>) = refs_of w"
  "refs_of (w\<lparr>cachedDentriesLen := b\<rparr>) = refs_of w"
  "refs_of (w\<lparr>dentries := c\<rparr>) = refs_of w"
  "refs_of (w\<lparr>trace := e\<rparr>) = refs_of w"
  by (simp_all add: refs_of_def)


lemma heap_emit [simp]: "heap (emit e w) = heap w"
  by (simp add: emit_def)

lemma refs_of_emit [simp]: "refs_of (emit e w) = refs_of w"
  by (simp add: emit_def)

lemma refs_of_remove_cached [simp]: "refs_of (remove_cached d w) = refs_of w"
  by (simp add: remove_cached_def refs_of_upd_keep)

lemma refs_of_push_cached [simp]: "refs_of (push_cached d w) = refs_of w"
  by (simp add: push_cached_def refs_of_upd_keep)

lemma refs_of_force_delete_victim [simp]: "refs_of (force_delete_victim d w) = refs_of w"
  by (simp add: force_delete_victim_def ForceDeleteDentry_def refs_of_upd_keep)

lemma refs_of_release_handle [simp]: "refs_of (release_handle d w) = refs_of w"
  by (simp add: release_handle_def Let_def refs_of_upd_keep)

lemma refs_of_release_file [simp]: "refs_of (release_file d w) = refs_of w"
  by (simp add: release_file_def refs_of_upd_keep)

lemma refs_of_mark_destroyed [simp]: "refs_of (mark_destroyed d w) = (refs_of w)[d := - 1]"
  by (simp add: mark_destroyed_def Let_def refs_of_upd)

lemma length_refs_of [simp]: "length (refs_of w) = length (heap w)"
  by (simp add: refs_of_def)

lemma refs_nth: "i < length (heap w) \<Longrightarrow> refs (heap w ! i) = refs_of w ! i"
  by (simp add: refs_of_def)

lemma length_heap_upd [simp]: "length (heap (upd i f w)) = length (heap w)"
  by (simp add: upd_def)

lemma length_heap_mark_destroyed [simp]: "length (heap (mark_destroyed d w)) = length (heap w)"
proof -
  have "length (map refs (heap (mark_destroyed d w))) = length (map refs (heap w))"
    using refs_of_mark_destroyed[of d w] unfolding refs_of_def by (metis length_list_update)
  then show ?thesis by simp
qed

lemma live_after_destroy:
  assumes d: "d < length (heap w0)" and r0: "refs (heap w0 ! d) = 0"
    and p: "p < length (heap w0)"
    and r1: "refs (heap (mark_destroyed d w0) ! p) - 1 = 0"
  shows "live (upd p (\<lambda>x. x\<lparr>refs := 0\<rparr>) (mark_destroyed d w0)) < live w0"
proof -
  let ?xs = "refs_of w0"
  let ?ys = "?xs[d := - 1]"
  have xd: "?xs ! d = 0" using d r0 by (simp add: refs_nth)
  have "refs (heap (mark_destroyed d w0) ! p) = ?ys ! p"
    using p by (simp add: refs_nth)
  with r1 have yp: "?ys ! p = 1" by simp
  have 1: "length (filter (\<lambda>r. r \<noteq> - 1) ?ys) < length (filter (\<lambda>r. r \<noteq> - 1) ?xs)"
    using d xd by (intro filter_update_less) auto
  have 2: "length (filter (\<lambda>r. r \<noteq> - 1) (?ys[p := 0])) = length (filter (\<lambda>r. r \<noteq> - 1) ?ys)"
    using yp by (intro filter_update_same) auto
  show ?thesis
    using 1 2 by (simp add: live_refs_of refs_of_upd)
qed

termination checkCachingLocked
proof (relation "measure (\<lambda>x. case x of Inl (d, w) \<Rightarrow> 2 * live w + 1 | Inr (d, w) \<Rightarrow> 2 * live w)",
    goal_cases)
  case 1
  show ?case by simp
next
  case (2 d w0 w)
  then show ?case by (auto simp: live_refs_of)
next
  case (3 d w0 w wa victim wb)
  then show ?case by (auto simp: live_refs_of)
next
  case (4 d w0 w p r wa)
  then show ?case
    using live_after_destroy[of d w0 p] by auto
qed

text \<open>\<open>dentry.DecRef\<close> (lines 875-883), with \<open>renameMu\<close> taken around the check.\<close>

definition DecRef :: "nat \<Rightarrow> filesystem \<Rightarrow> error + filesystem" where
  "DecRef d w0 =
     (if length (heap w0) \<le> d then Inl (Panic ''nil pointer dereference'')
      else
        let r = refs (heap w0 ! d) - 1;
            w = upd d (\<lambda>x. x\<lparr>refs := r\<rparr>) w0
        in if r = 0 then checkCachingLocked d w
           else if r <s 0
           then Inl (Panic ''gofer.dentry.DecRef() called without holding a reference'')
           else Inr w)"

declare checkCachingLocked.simps [simp del] destroyLocked.simps [simp del]

subsection \<open>Counting evictions, and the bookkeeping of the cache\<close>

text \<open>
  An eviction is the removal of the tail victim from the LRU list (lines 936-939); an
  invocation is one run of \<open>checkCachingLocked\<close>.
\<close>

fun is_evict :: "event \<Rightarrow> bool" where
  "is_evict (Ev_evict _) = True"
| "is_evict _ = False"

fun is_check :: "event \<Rightarrow> bool" where
  "is_check (Ev_checkCachingLocked _) = True"
| "is_check _ = False"

definition evictions :: "filesystem \<Rightarrow> nat" where
  "evictions w = length (filter is_evict (trace w))"

definition invocations :: "filesystem \<Rightarrow> nat" where
  "invocations w = length (filter is_check (trace w))"

text \<open>
  \<open>lru_ok\<close>: the list has no duplicates, the counter is its length, a dentry is in
  the list exactly when its \<open>cached\<close> flag is set, and the dentries are fewer than
  \<open>2^64\<close> (they live in a 64-bit address space). \<open>lru_bounded\<close> adds the cap.
  \<open>lru_post\<close> is what a run establishes: the cache is consistent and within the cap,
  the options are untouched, and the run made no more evictions than invocations.
\<close>

definition cached_of :: "filesystem \<Rightarrow> bool list" where
  "cached_of w = map cached (heap w)"

definition lru_ok :: "filesystem \<Rightarrow> bool" where
  "lru_ok w =
     (distinct (cachedDentries w)
      \<and> length (cachedDentries w) = unat (cachedDentriesLen w)
      \<and> set (cachedDentries w) = set (filter (\<lambda>i. cached (heap w ! i)) [0..<length (heap w)])
      \<and> length (heap w) < 2 ^ 64)"

definition lru_bounded :: "filesystem \<Rightarrow> bool" where
  "lru_bounded w = (lru_ok w \<and> cachedDentriesLen w \<le> maxCachedDentries (opts w))"

definition lru_post :: "filesystem \<Rightarrow> filesystem \<Rightarrow> bool" where
  "lru_post w0 w' =
     (lru_bounded w' \<and> opts w' = opts w0
      \<and> evictions w' + invocations w0 \<le> invocations w' + evictions w0)"

definition check_ok :: "nat \<Rightarrow> filesystem \<Rightarrow> bool" where
  "check_ok d w0 = (lru_bounded w0 \<longrightarrow> (\<forall>w'. checkCachingLocked d w0 = Inr w' \<longrightarrow> lru_post w0 w'))"

definition destroy_ok :: "nat \<Rightarrow> filesystem \<Rightarrow> bool" where
  "destroy_ok d w0 = (lru_bounded w0 \<longrightarrow> (\<forall>w'. destroyLocked d w0 = Inr w' \<longrightarrow> lru_post w0 w'))"

section \<open>Concrete states\<close>

text \<open>
  A regular file of 8192 bytes, mapped, cached and partly dirty, with a read-only
  handle that has a host file descriptor (scenarios 3 and 4 of the spec); an
  environment in which every outside call succeeds; and two requests.
\<close>

definition S_IFREG :: "32 word" where "S_IFREG = 0x8000"

definition example_opts :: "InteropMode \<Rightarrow> filesystemOptions" where
  "example_opts m = \<lparr>interop = m, maxCachedDentries = 1000, overlayfsStaleRead = False\<rparr>"

definition example_file :: dentry where
  "example_file =
     \<lparr>parent = Some 0, disowned = False, refs = 1, file_d = Some 7, deleted = 0, cached = False,
      ino = 42, mode = 0x81A4, uid = 1000, gid = 1000, blockSize = 4096,
      atime = 5, mtime = 6, ctime = 7, btime = 4, size_d = 8192, nlink = 1,
      mappings = [(0, 8192)], handle = \<lparr>file_h = Some 8, fd = 3\<rparr>,
      handleReadable = True, handleWritable = False,
      cache = [(0, 8192)], dirty = [(2000, 5000)]\<rparr>"

definition example_env :: setStat_env where
  "example_env = \<lparr>CheckSetStat = None, CheckBeginWrite = None, setAttr = None, clock_Now = 1000\<rparr>"

definition truncate_to_3000 :: Statx where
  "truncate_to_3000 = zero_Statx\<lparr>Mask := STATX_SIZE, Size := 3000\<rparr>"

definition set_ctime_request :: Statx where
  "set_ctime_request = zero_Statx\<lparr>Mask := STATX_CTIME\<rparr>"

text \<open>
  A stat request, and a getattr reply of the server that carries a size of 1000 only.
\<close>

definition example_stat_opts :: StatOptions where
  "example_stat_opts = \<lparr>so_Mask = 0x7FF, so_Sync = 0\<rparr>"

definition example_getAttr :: "p9file \<Rightarrow> error + AttrMask \<times> Attr" where
  "example_getAttr f =
     Inr (\<lparr>am_Mode = False, am_NLink = False, am_UID = False, am_GID = False, am_ATime = False,
           am_MTime = False, am_CTime = False, am_Size = True, am_BTime = False\<rparr>,
          \<lparr>a_Mode = 0, a_UID = 0, a_GID = 0, a_NLink = 0, a_Size = 1000, a_BlockSize = 0,
           a_ATimeSeconds = 0, a_ATimeNanoSeconds = 0, a_MTimeSeconds = 0, a_MTimeNanoSeconds = 0,
           a_CTimeSeconds = 0, a_CTimeNanoSeconds = 0, a_BTimeSeconds = 0, a_BTimeNanoSeconds = 0\<rparr>)"

text \<open>
  An unprivileged caller who is neither the owner nor in the group of the example
  file, and a server that answers every xattr call.
\<close>

definition example_creds :: Credentials where
  "example_creds = \<lparr>EffectiveKUID = 2000, EffectiveKGID = 2000, ExtraKGIDs = [],
     HasCapability_DAC_OVERRIDE = False\<rparr>"

definition example_getXattr :: "p9file \<Rightarrow> string \<Rightarrow> 64 word \<Rightarrow> error + string" where
  "example_getXattr f name sz = Inr ''value''"

definition example_setXattr :: "p9file \<Rightarrow> string \<Rightarrow> string \<Rightarrow> 32 word \<Rightarrow> error option" where
  "example_setXattr f name v flags = None"

definition example_removeXattr :: "p9file \<Rightarrow> string \<Rightarrow> error option" where
  "example_removeXattr f name = None"

text \<open>
  A server whose open passes no host file descriptor (\<open>fd = -1\<close>), while the example
  file's handle has one.
\<close>

definition example_handle_env :: handle_env where
  "example_handle_env =
     \<lparr>openHandle = (\<lambda>f r w t. Inr \<lparr>file_h = Some 9, fd = - 1\<rparr>),
      Dup3 = (\<lambda>new old. None),
      RegenerateMappings = (\<lambda>fd. None)\<rparr>"

text \<open>
  A dentry cache with a cap of 1: the root (0), a directory P (1) under the root that
  is referenced by its child only, the child X (2) of P, which is cached with no
  reference, and a dentry D (3) under the root with one reference. \<open>example_world_after\<close>
  is the state after the last reference on D is dropped.
\<close>

definition example_dentry :: "nat option \<Rightarrow> 64 word \<Rightarrow> bool \<Rightarrow> dentry" where
  "example_dentry p r c =
     \<lparr>parent = p, disowned = False, refs = r, file_d = Some 7, deleted = 0, cached = c,
      ino = 42, mode = 0x41ED, uid = 1000, gid = 1000, blockSize = 4096,
      atime = 5, mtime = 6, ctime = 7, btime = 4, size_d = 0, nlink = 2,
      mappings = [], handle = \<lparr>file_h = None, fd = - 1\<rparr>,
      handleReadable = False, handleWritable = False,
      cache = [], dirty = []\<rparr>"

definition example_world :: filesystem where
  "example_world =
     \<lparr>opts = \<lparr>interop = InteropModeExclusive, maxCachedDentries = 1, overlayfsStaleRead = False\<rparr>,
      cachedDentries = [2],
      cachedDentriesLen = 1,
      dentries = {0, 1, 2, 3},
      heap = [example_dentry None 2 False,
              example_dentry (Some 0) 1 False,
              example_dentry (Some 1) 0 True,
              example_dentry (Some 0) 1 False],
      trace = []\<rparr>"

definition example_world_after :: filesystem where
  "example_world_after =
     \<lparr>opts = \<lparr>interop = InteropModeExclusive, maxCachedDentries = 1, overlayfsStaleRead = False\<rparr>,
      cachedDentries = [1],
      cachedDentriesLen = 1,
      dentries = {0, 1},
      heap = [example_dentry None 1 False,
              example_dentry (Some 0) 0 True,
              (example_dentry (Some 1) (- 1) False)\<lparr>disowned := True, file_d := None\<rparr>,
              (example_dentry (Some 0) (- 1) False)\<lparr>disowned := True, file_d := None\<rparr>],
      trace = [Ev_checkCachingLocked 3, Ev_evict 2, Ev_ForceDeleteDentry 2, Ev_destroyLocked 2,
               Ev_file_close (Some 7),
               Ev_checkCachingLocked 1, Ev_evict 3, Ev_ForceDeleteDentry 3, Ev_destroyLocked 3,
               Ev_file_close (Some 7)]\<rparr>"

section \<open>Theorems\<close>

subsection \<open>Evaluation rules\<close>

lemmas statx_consts = STATX_TYPE_def STATX_MODE_def STATX_NLINK_def STATX_UID_def
      STATX_GID_def STATX_ATIME_def STATX_MTIME_def STATX_CTIME_def STATX_INO_def STATX_SIZE_def
      STATX_BLOCKS_def STATX_BTIME_def

lemmas example_defs = example_opts_def example_env_def example_file_def truncate_to_3000_def
  set_ctime_request_def zero_Statx_def zero_StatxTimestamp_def

lemmas setStat_defs = setStat_def setStat_local_times_def setStat_request_def setStat_update_def
  setStat_size_def pageRoundUp_def Truncate_def KeepClean_def Invalidate_def remove_range_all_def
  remove_range_def fileType_def S_IFMT_def UTIME_NOW_def Let_def

subsection \<open>TryIncRef\<close>

text \<open>
  C4, as stated: a dentry whose reference count is exactly 0 would be made live by
  \<open>TryIncRef\<close>, which would return true and leave the count at 1. The code refuses:
  on the example file with \<open>refs = 0\<close> it returns false and the count stays 0.
\<close>

theorem TryIncRef_cacheable_counterexample:
  "refs (example_file\<lparr>refs := 0\<rparr>) = 0 \<and>
   TryIncRef (example_file\<lparr>refs := 0\<rparr>) = (False, example_file\<lparr>refs := 0\<rparr>) \<and>
   refs (snd (TryIncRef (example_file\<lparr>refs := 0\<rparr>))) \<noteq> 1"
  by (simp add: TryIncRef_def Let_def)

lemma sint_succ:
  "sint (r :: 64 word) < 2 ^ 63 - 1 \<Longrightarrow> sint (r + 1) = sint r + 1"
proof -
  assume a: "sint r < 2 ^ 63 - 1"
  have lo: "- (2 ^ 63) \<le> sint r" using sint_ge [of r] by simp
  have "sint (r + 1) = signed_take_bit 63 (sint r + 1)"
    by (simp add: sint_word_ariths)
  also have "\<dots> = sint r + 1"
    using a lo by (intro signed_take_bit_int_eq_self) simp_all
  finally show ?thesis .
qed

text \<open>
  C4, amended: \<open>TryIncRef\<close> refuses a reference count that is not positive (cacheable
  or destroyed): it returns false and changes nothing. On a positive count (a live
  dentry) it returns true and stores the count plus one, which is one reference more
  unless the int64 is at its maximum.
\<close>

theorem TryIncRef_spec:
  "(sint (refs d) \<le> 0 \<longrightarrow> TryIncRef d = (False, d)) \<and>
   (0 < sint (refs d) \<longrightarrow>
      TryIncRef d = (True, d\<lparr>refs := refs d + 1\<rparr>) \<and>
      (sint (refs d) < 2 ^ 63 - 1 \<longrightarrow> sint (refs (snd (TryIncRef d))) = sint (refs d) + 1))"
  by (simp add: TryIncRef_def Let_def word_sle_eq sint_succ)

theorem TryIncRef_spec_witness:
  "0 < sint (refs example_file) \<and> sint (refs example_file) < 2 ^ 63 - 1 \<and>
   TryIncRef example_file = (True, example_file\<lparr>refs := 2\<rparr>) \<and>
   sint (refs (snd (TryIncRef example_file))) = 2 \<and>
   sint (refs (example_file\<lparr>refs := - 1\<rparr>)) \<le> 0 \<and>
   TryIncRef (example_file\<lparr>refs := - 1\<rparr>) = (False, example_file\<lparr>refs := - 1\<rparr>)"
  using TryIncRef_spec [of example_file] TryIncRef_spec [of "example_file\<lparr>refs := - 1\<rparr>"]
  by (simp add: example_file_def)

subsection \<open>SetStat: the two early returns\<close>

text \<open>
  C10: a request with an empty mask returns nil at once: no call is made (neither the
  permission check nor the server), and the dentry is as before.
\<close>

theorem setStat_empty_mask: "Mask stat = 0 \<Longrightarrow> setStat fsopts env d stat = (None, d, [])"
  by (simp add: setStat_def)

theorem setStat_empty_mask_witness:
  "Mask zero_Statx = 0 \<and>
   setStat (example_opts InteropModeExclusive)
     (example_env\<lparr>CheckSetStat := Some EPERM, setAttr := Some EIO\<rparr>) example_file zero_Statx
     = (None, example_file, [])"
proof -
  have h: "Mask zero_Statx = 0" by (simp add: zero_Statx_def)
  show ?thesis using h setStat_empty_mask [OF h] by simp
qed

lemma mask_bit_nonzero: "bit (m::32 word) n \<Longrightarrow> m \<noteq> 0"
  by auto

lemma mask_bit_outside: "bit (m::32 word) n \<Longrightarrow> \<not> bit (a::32 word) n \<Longrightarrow> m AND NOT a \<noteq> 0"
proof -
  assume a: "bit m n" "\<not> bit a n"
  then have "n < 32" using bit_imp_le_length[of m n] by simp
  with a have "bit (m AND NOT a) n" by (simp add: bit_and_iff bit_not_iff)
  then show ?thesis by auto
qed

text \<open>
  C6: a request whose mask has a bit outside \<open>{mode, uid, gid, atime, mtime, size}\<close>
  fails with EPERM; no call is made (the server is not contacted) and the dentry is as
  before.
\<close>

theorem setStat_EPERM:
  assumes b: "bit (Mask stat) n"
    and nb: "\<not> bit (STATX_MODE OR STATX_UID OR STATX_GID OR STATX_ATIME OR STATX_MTIME
                     OR STATX_SIZE) n"
  shows "setStat fsopts env d stat = (Some EPERM, d, [])"
proof -
  have 1: "Mask stat \<noteq> 0" using b by (rule mask_bit_nonzero)
  have 2: "Mask stat AND NOT (STATX_MODE OR STATX_UID OR STATX_GID OR STATX_ATIME
                                  OR STATX_MTIME OR STATX_SIZE) \<noteq> 0"
    using b nb by (rule mask_bit_outside)
  show ?thesis using 1 2 by (simp add: setStat_def)
qed

theorem setStat_EPERM_witness:
  "bit (Mask set_ctime_request) 7 \<and>
   \<not> bit (STATX_MODE OR STATX_UID OR STATX_GID OR STATX_ATIME OR STATX_MTIME OR STATX_SIZE) 7 \<and>
   setStat (example_opts InteropModeExclusive) example_env example_file set_ctime_request
     = (Some EPERM, example_file, [])"
proof -
  have b: "bit (Mask set_ctime_request) 7"
    by (simp add: set_ctime_request_def zero_Statx_def STATX_CTIME_def)
  have nb: "\<not> bit (STATX_MODE OR STATX_UID OR STATX_GID OR STATX_ATIME OR STATX_MTIME
                     OR STATX_SIZE) 7"
    by (simp add: statx_consts)
  show ?thesis using b nb setStat_EPERM [OF b nb] by simp
qed

subsection \<open>SetStat in Shared mode\<close>

text \<open>
  C5: in Shared interop mode a successful \<open>SetStat\<close> leaves the dentry as it was: mode,
  uid, gid, atime, mtime, ctime and size are not updated locally.
\<close>

theorem setStat_Shared_no_local_update:
  assumes "interop fsopts = InteropModeShared"
    and "setStat fsopts env d stat = (None, d', evs)"
  shows "d' = d \<and> mode d' = mode d \<and> uid d' = uid d \<and> gid d' = gid d \<and> atime d' = atime d
     \<and> mtime d' = mtime d \<and> ctime d' = ctime d \<and> size_d d' = size_d d"
proof -
  have "d' = d"
    using assms
    by (auto simp: setStat_def Let_def split: if_splits option.splits prod.splits)
  then show ?thesis by simp
qed

lemma setStat_Shared_example:
  "setStat (example_opts InteropModeShared) example_env example_file truncate_to_3000 =
     (None, example_file,
      [Ev_CheckSetStat, Ev_CheckBeginWrite,
       Ev_setAttr (Some 7)
         \<lparr>sm_Permissions = False, sm_UID = False, sm_GID = False, sm_Size = True,
          sm_ATime = False, sm_MTime = False, sm_ATimeNotSystemTime = True,
          sm_MTimeNotSystemTime = True\<rparr>
         \<lparr>sa_Permissions = 0, sa_UID = 0, sa_GID = 0, sa_Size = 3000, sa_ATimeSeconds = 0,
          sa_ATimeNanoSeconds = 0, sa_MTimeSeconds = 0, sa_MTimeNanoSeconds = 0\<rparr>,
       Ev_EndWrite])"
  by (simp add: setStat_def setStat_local_times_def setStat_request_def UTIME_NOW_def Let_def
      example_opts_def example_env_def truncate_to_3000_def zero_Statx_def zero_StatxTimestamp_def
      statx_consts)
     (simp add: example_file_def)

theorem setStat_Shared_no_local_update_witness:
  "interop (example_opts InteropModeShared) = InteropModeShared \<and>
   fst (setStat (example_opts InteropModeShared) example_env example_file truncate_to_3000) = None \<and>
   size_d (fst (snd (setStat (example_opts InteropModeShared) example_env example_file
                       truncate_to_3000))) = size_d example_file"
proof -
  have h: "interop (example_opts InteropModeShared) = InteropModeShared"
    by (simp add: example_opts_def)
  show ?thesis
    using h setStat_Shared_no_local_update [OF h setStat_Shared_example]
    by (simp add: setStat_Shared_example)
qed

subsection \<open>SetStat outside Shared mode: the modification time\<close>

lemma size_bit_kept: "(m AND NOT (STATX_ATIME OR STATX_MTIME)) AND STATX_SIZE = m AND STATX_SIZE"
proof -
  have "NOT (STATX_ATIME OR STATX_MTIME) AND STATX_SIZE = STATX_SIZE"
    by (simp add: STATX_ATIME_def STATX_MTIME_def STATX_SIZE_def)
  then show ?thesis by (metis and.assoc)
qed

lemma local_times_size:
  "interop fsopts \<noteq> InteropModeShared \<Longrightarrow> Mask stat AND STATX_SIZE \<noteq> 0 \<Longrightarrow>
   setStat_local_times fsopts stat = (la, lm, stat') \<Longrightarrow>
   lm \<and> Nsec (Mtime stat') = (if Mask stat AND STATX_MTIME \<noteq> 0 then Nsec (Mtime stat) else UTIME_NOW)
   \<and> (Mask stat AND STATX_MTIME \<noteq> 0 \<longrightarrow> Mtime stat' = Mtime stat)
   \<and> Size stat' = Size stat \<and> Mask stat' AND STATX_SIZE \<noteq> 0"
  using size_bit_kept[of "Mask stat"]
  by (auto simp: setStat_local_times_def Let_def split: if_splits)

lemma mtime_setStat_size: "mtime (setStat_size stat d) = mtime d"
  by (simp add: setStat_size_def Let_def)

lemma mtime_setStat_update:
  "mtime (setStat_update now la lm stat d) =
     (if lm then (if Nsec (Mtime stat) = UTIME_NOW then now else dentryTimestampFromStatx (Mtime stat))
      else mtime d)"
  by (simp add: setStat_update_def Let_def mtime_setStat_size)

lemma setStat_success_outside_Shared:
  assumes "interop fsopts \<noteq> InteropModeShared" and "Mask stat AND STATX_SIZE \<noteq> 0"
    and "setStat fsopts env d stat = (None, d', evs)"
  shows "\<exists>la stat'. setStat_local_times fsopts stat = (la, True, stat') \<and>
           d' = setStat_update (clock_Now env) la True stat' d"
  using assms
  by (auto simp: setStat_def Let_def split: if_splits option.splits prod.splits
           dest: local_times_size)

text \<open>
  C7: outside Shared interop mode, a successful \<open>SetStat\<close> whose mask has the size sets
  the cached mtime to the client clock's now, unless the caller gave an explicit mtime
  (the mtime bit with a nanosecond field other than \<open>UTIME_NOW\<close>), which is then the
  value stored.
\<close>

theorem setStat_size_stamps_mtime:
  assumes "interop fsopts \<noteq> InteropModeShared" and "Mask stat AND STATX_SIZE \<noteq> 0"
    and "setStat fsopts env d stat = (None, d', evs)"
  shows "mtime d' = (if Mask stat AND STATX_MTIME \<noteq> 0 \<and> Nsec (Mtime stat) \<noteq> UTIME_NOW
                     then dentryTimestampFromStatx (Mtime stat) else clock_Now env)"
proof -
  obtain la stat' where lt: "setStat_local_times fsopts stat = (la, True, stat')"
    and d': "d' = setStat_update (clock_Now env) la True stat' d"
    using setStat_success_outside_Shared [OF assms] by blast
  from local_times_size [OF assms(1,2) lt] show ?thesis
    by (auto simp: d' mtime_setStat_update)
qed

lemma setStat_Exclusive_example:
  "setStat (example_opts InteropModeExclusive) example_env example_file truncate_to_3000 =
     (None,
      example_file\<lparr>mtime := 1000, ctime := 1000, size_d := 3000, mappings := [(0, 4096)],
                    cache := [(0, 4096)], dirty := [(2000, 3000)]\<rparr>,
      [Ev_CheckSetStat, Ev_CheckBeginWrite,
       Ev_setAttr (Some 7)
         \<lparr>sm_Permissions = False, sm_UID = False, sm_GID = False, sm_Size = True,
          sm_ATime = False, sm_MTime = False, sm_ATimeNotSystemTime = True,
          sm_MTimeNotSystemTime = False\<rparr>
         \<lparr>sa_Permissions = 0, sa_UID = 0, sa_GID = 0, sa_Size = 3000, sa_ATimeSeconds = 0,
          sa_ATimeNanoSeconds = 0, sa_MTimeSeconds = 0, sa_MTimeNanoSeconds = 0x3FFFFFFF\<rparr>,
       Ev_EndWrite])"
  by (simp add: setStat_defs example_defs statx_consts)

theorem setStat_size_stamps_mtime_witness:
  "interop (example_opts InteropModeExclusive) \<noteq> InteropModeShared \<and>
   Mask truncate_to_3000 AND STATX_SIZE \<noteq> 0 \<and>
   fst (setStat (example_opts InteropModeExclusive) example_env example_file truncate_to_3000) = None \<and>
   mtime (fst (snd (setStat (example_opts InteropModeExclusive) example_env example_file
                      truncate_to_3000))) = clock_Now example_env"
proof -
  have h1: "interop (example_opts InteropModeExclusive) \<noteq> InteropModeShared"
    by (simp add: example_opts_def)
  have h2: "Mask truncate_to_3000 AND STATX_SIZE \<noteq> 0"
    by (simp add: truncate_to_3000_def STATX_SIZE_def)
  have m: "Mask truncate_to_3000 AND STATX_MTIME = 0"
    by (simp add: truncate_to_3000_def STATX_SIZE_def STATX_MTIME_def)
  show ?thesis
    using h1 h2 m setStat_size_stamps_mtime [OF h1 h2 setStat_Exclusive_example]
    by (simp add: setStat_Exclusive_example)
qed

subsection \<open>SetStat outside Shared mode: shrinking a file\<close>

lemma remove_range_no_intersect:
  "r \<in> set (remove_range mr se) \<Longrightarrow> \<not> intersects r mr"
  by (cases mr; cases se) (auto simp: remove_range_def intersects_def split: if_splits)

lemma remove_range_all_no_intersect:
  "r \<in> set (remove_range_all mr rs) \<Longrightarrow> \<not> intersects r mr"
  by (auto simp: remove_range_all_def dest: remove_range_no_intersect)

lemma Truncate_bound:
  "newend \<le> 0xFFFFFFFFFFFFF000 \<Longrightarrow> r \<in> set (Truncate newend rs) \<Longrightarrow>
   snd r \<le> pageRoundUp newend"
  by (auto simp: Truncate_def split: if_splits)

lemma setStat_size_shrink:
  assumes "Size stat < size_d d" and "Size stat \<le> 0xFFFFFFFFFFFFF000"
  shows "size_d (setStat_size stat d) = Size stat
     \<and> (\<forall>r\<in>set (cache (setStat_size stat d)). snd r \<le> pageRoundUp (Size stat))
     \<and> (\<forall>r\<in>set (dirty (setStat_size stat d)).
           \<not> intersects r (Size stat, pageRoundUp (size_d d)))
     \<and> (\<forall>r\<in>set (mappings (setStat_size stat d)).
           \<not> intersects r (pageRoundUp (Size stat), pageRoundUp (size_d d)))"
proof -
  have e: "\<And>r a. \<not> intersects r (a, a)" by (simp add: intersects_def)
  show ?thesis
    using assms
    by (auto simp: setStat_size_def Let_def KeepClean_def Invalidate_def e
             dest: Truncate_bound remove_range_all_no_intersect)
qed

lemma setStat_update_size:
  "Mask stat AND STATX_SIZE \<noteq> 0 \<Longrightarrow>
   \<exists>d0. setStat_update now la lm stat d = setStat_size stat d0 \<and> size_d d0 = size_d d
      \<and> cache d0 = cache d \<and> dirty d0 = dirty d \<and> mappings d0 = mappings d"
  by (auto simp: setStat_update_def Let_def intro!: exI)

text \<open>
  C2, as stated, ranges over every regular-file dentry. In Shared interop mode the
  code returns before it touches the dentry: on the example file, a successful
  \<open>SetStat\<close> from 8192 to 3000 bytes leaves the dentry's size at 8192.
\<close>

theorem setStat_shrink_Shared_counterexample:
  "fileType example_file = S_IFREG \<and>
   Mask truncate_to_3000 AND STATX_SIZE \<noteq> 0 \<and>
   Size truncate_to_3000 < size_d example_file \<and>
   fst (setStat (example_opts InteropModeShared) example_env example_file truncate_to_3000) = None \<and>
   size_d (fst (snd (setStat (example_opts InteropModeShared) example_env example_file
                       truncate_to_3000))) \<noteq> Size truncate_to_3000"
  by (simp add: setStat_Shared_example)
     (simp add: example_file_def truncate_to_3000_def fileType_def S_IFMT_def S_IFREG_def STATX_SIZE_def)

text \<open>
  C2, amended: outside Shared interop mode, after a successful \<open>SetStat\<close> whose mask
  has the size and whose new size is smaller than the old one (and at most
  \<open>2^64 - 4096\<close>, so that rounding it up to a page does not wrap): the dentry's size
  is the new size; no cached range reaches beyond the new size rounded up to a page;
  no dirty range has a byte in \<open>[newSize, oldPageEnd)\<close>; no mapped range has a byte in
  \<open>[newPageEnd, oldPageEnd)\<close>. The page that holds the new end of file stays cached
  and mapped.
\<close>

theorem setStat_shrink_outside_Shared:
  assumes "interop fsopts \<noteq> InteropModeShared"
    and "Mask stat AND STATX_SIZE \<noteq> 0"
    and "Size stat < size_d d"
    and "Size stat \<le> 0xFFFFFFFFFFFFF000"
    and "setStat fsopts env d stat = (None, d', evs)"
  shows "size_d d' = Size stat
     \<and> (\<forall>r\<in>set (cache d'). snd r \<le> pageRoundUp (Size stat))
     \<and> (\<forall>r\<in>set (dirty d'). \<not> intersects r (Size stat, pageRoundUp (size_d d)))
     \<and> (\<forall>r\<in>set (mappings d').
           \<not> intersects r (pageRoundUp (Size stat), pageRoundUp (size_d d)))"
proof -
  obtain la stat' where lt: "setStat_local_times fsopts stat = (la, True, stat')"
    and d': "d' = setStat_update (clock_Now env) la True stat' d"
    using setStat_success_outside_Shared [OF assms(1,2,5)] by blast
  from local_times_size [OF assms(1,2) lt]
  have sz: "Size stat' = Size stat" and m: "Mask stat' AND STATX_SIZE \<noteq> 0" by simp_all
  obtain d0 where u: "setStat_update (clock_Now env) la True stat' d = setStat_size stat' d0"
    and k: "size_d d0 = size_d d"
    using setStat_update_size [OF m] by blast
  have "Size stat' < size_d d0" "Size stat' \<le> 0xFFFFFFFFFFFFF000"
    using assms(3,4) by (simp_all add: sz k)
  from setStat_size_shrink [OF this] show ?thesis
    by (simp add: d' u sz k)
qed

theorem setStat_shrink_outside_Shared_witness:
  "interop (example_opts InteropModeExclusive) \<noteq> InteropModeShared \<and>
   Mask truncate_to_3000 AND STATX_SIZE \<noteq> 0 \<and>
   Size truncate_to_3000 < size_d example_file \<and>
   Size truncate_to_3000 \<le> 0xFFFFFFFFFFFFF000 \<and>
   size_d (example_file\<lparr>mtime := 1000, ctime := 1000, size_d := 3000, mappings := [(0, 4096)],
                    cache := [(0, 4096)], dirty := [(2000, 3000)]\<rparr>) = Size truncate_to_3000 \<and>
   \<not> intersects (2000, 3000) (Size truncate_to_3000, pageRoundUp (size_d example_file)) \<and>
   \<not> intersects (0, 4096) (pageRoundUp (Size truncate_to_3000), pageRoundUp (size_d example_file))"
proof -
  have h1: "interop (example_opts InteropModeExclusive) \<noteq> InteropModeShared"
    by (simp add: example_opts_def)
  have h2: "Mask truncate_to_3000 AND STATX_SIZE \<noteq> 0"
    by (simp add: truncate_to_3000_def STATX_SIZE_def)
  have h3: "Size truncate_to_3000 < size_d example_file"
    by (simp add: truncate_to_3000_def example_file_def)
  have h4: "Size truncate_to_3000 \<le> 0xFFFFFFFFFFFFF000"
    by (simp add: truncate_to_3000_def)
  show ?thesis
    using h1 h2 h3 h4 setStat_shrink_outside_Shared [OF h1 h2 h3 h4 setStat_Exclusive_example]
    by (simp add: truncate_to_3000_def example_file_def pageRoundUp_def intersects_def)
qed

text \<open>
  The page granularity on the example (scenario 3 of the spec): truncating to 3000
  keeps the cached and mapped range \<open>[0, 4096)\<close>, which has bytes at and after 3000.
\<close>

lemma setStat_shrink_keeps_partial_page:
  "cache (fst (snd (setStat (example_opts InteropModeExclusive) example_env example_file
                      truncate_to_3000))) = [(0, 4096)] \<and>
   mappings (fst (snd (setStat (example_opts InteropModeExclusive) example_env example_file
                      truncate_to_3000))) = [(0, 4096)] \<and>
   intersects (0, 4096) (Size truncate_to_3000, 0xFFFFFFFFFFFFFFFF)"
  by (simp add: setStat_Exclusive_example) (simp add: intersects_def truncate_to_3000_def)

subsection \<open>Stat\<close>

lemma statTo_Mask:
  "Mask (statTo d stat) = STATX_TYPE OR STATX_MODE OR STATX_NLINK OR STATX_UID OR STATX_GID
      OR STATX_ATIME OR STATX_MTIME OR STATX_CTIME OR STATX_INO OR STATX_SIZE
      OR STATX_BLOCKS OR STATX_BTIME"
  by (simp add: statTo_def Let_def)

lemma statTo_Blocks: "Blocks (statTo d stat) = (Size (statTo d stat) + 511) div 512"
  by (simp add: statTo_def Let_def)

lemma statTo_Size: "Size (statTo d stat) = size_d d"
  by (simp add: statTo_def Let_def)

lemma Stat_success:
  "Stat fsopts getAttr d sopts = (Inr st, d', evs) \<Longrightarrow> st = statTo d' zero_Statx"
  by (auto simp: Stat_def split: if_splits prod.splits sum.splits)

text \<open>
  C9: the snapshot of a successful \<open>Stat\<close> has the twelve bits type, mode, nlink, uid,
  gid, atime, mtime, ctime, ino, size, blocks and btime in its mask; its size is the
  dentry's, and its blocks field is \<open>(size + 511) / 512\<close> of that size, in uint64
  arithmetic as the code computes it.
\<close>

theorem Stat_snapshot:
  assumes "Stat fsopts getAttr d sopts = (Inr st, d', evs)"
  shows "Mask st AND STATX_TYPE = STATX_TYPE \<and> Mask st AND STATX_MODE = STATX_MODE
     \<and> Mask st AND STATX_NLINK = STATX_NLINK \<and> Mask st AND STATX_UID = STATX_UID
     \<and> Mask st AND STATX_GID = STATX_GID \<and> Mask st AND STATX_ATIME = STATX_ATIME
     \<and> Mask st AND STATX_MTIME = STATX_MTIME \<and> Mask st AND STATX_CTIME = STATX_CTIME
     \<and> Mask st AND STATX_INO = STATX_INO \<and> Mask st AND STATX_SIZE = STATX_SIZE
     \<and> Mask st AND STATX_BLOCKS = STATX_BLOCKS \<and> Mask st AND STATX_BTIME = STATX_BTIME
     \<and> Size st = size_d d' \<and> Blocks st = (Size st + 511) div 512"
proof -
  have st: "st = statTo d' zero_Statx" using assms by (rule Stat_success)
  have m: "Mask st = 0xFFF" by (simp add: st statTo_Mask statx_consts)
  show ?thesis
    by (simp add: m statx_consts) (simp add: st statTo_Blocks statTo_Size)
qed

lemma Stat_Shared_example:
  "Stat (example_opts InteropModeShared) example_getAttr example_file example_stat_opts =
     (Inr (statTo (example_file\<lparr>size_d := 1000\<rparr>) zero_Statx), example_file\<lparr>size_d := 1000\<rparr>,
      [Ev_getAttr (Some 8)])"
  by (simp add: Stat_def example_opts_def example_stat_opts_def validMask_def statx_consts
        AT_STATX_DONT_SYNC_def updateFromGetattr_def example_getAttr_def updateFromP9Attrs_def
        Let_def)
     (simp add: example_file_def)

theorem Stat_snapshot_witness:
  "Stat (example_opts InteropModeShared) example_getAttr example_file example_stat_opts =
     (Inr (statTo (example_file\<lparr>size_d := 1000\<rparr>) zero_Statx), example_file\<lparr>size_d := 1000\<rparr>,
      [Ev_getAttr (Some 8)]) \<and>
   Mask (statTo (example_file\<lparr>size_d := 1000\<rparr>) zero_Statx) AND STATX_BLOCKS = STATX_BLOCKS \<and>
   Size (statTo (example_file\<lparr>size_d := 1000\<rparr>) zero_Statx) = 1000 \<and>
   Blocks (statTo (example_file\<lparr>size_d := 1000\<rparr>) zero_Statx) = 2"
  using Stat_snapshot [OF Stat_Shared_example] Stat_Shared_example
  by simp

text \<open>
  Read as natural numbers, the blocks are \<open>(size + 511) div 512\<close> as long as
  \<open>size + 511\<close> fits in a uint64.
\<close>

lemma statTo_Blocks_nat:
  assumes "unat (size_d d) + 511 < 2 ^ 64"
  shows "unat (Blocks (statTo d stat)) = (unat (size_d d) + 511) div 512"
proof -
  have "unat (size_d d) + unat (511 :: 64 word) < 2 ^ LENGTH(64)" using assms by simp
  then have "unat (size_d d + 511) = unat (size_d d) + unat (511 :: 64 word)"
    by (simp only: unat_add_lem)
  then show ?thesis
    by (simp add: statTo_def Let_def unat_div)
qed

subsection \<open>Extended attributes outside the user namespace\<close>

text \<open>
  C8, as stated: \<open>getxattr("security.selinux")\<close> returns EOPNOTSUPP on any dentry. The
  code checks the permission first: on a file of mode 000 read by an unprivileged
  caller who is not its owner, the result is EACCES.
\<close>

theorem getxattr_unreadable_counterexample:
  "\<not> HasPrefix ''security.selinux'' XATTR_USER_PREFIX \<and>
   getxattr example_getXattr (example_file\<lparr>mode := S_IFREG\<rparr>) example_creds
     \<lparr>gx_Name = ''security.selinux'', gx_Size = 0\<rparr> = (Inl EACCES, []) \<and>
   fst (getxattr example_getXattr (example_file\<lparr>mode := S_IFREG\<rparr>) example_creds
     \<lparr>gx_Name = ''security.selinux'', gx_Size = 0\<rparr>) \<noteq> Inl EOPNOTSUPP"
  by (simp add: getxattr_def checkPermissions_def GenericCheckPermissions_def Let_def
      example_file_def example_creds_def S_IFREG_def MayRead_def HasPrefix_def XATTR_USER_PREFIX_def)

text \<open>
  C8, amended: for a name without the prefix \<open>user.\<close>, \<open>getxattr\<close>, \<open>setxattr\<close> and
  \<open>removexattr\<close> never contact the server (no call is made); they fail with the error
  of the permission check (read for get, write for set and remove) when that check
  fails, and with EOPNOTSUPP when it passes.
\<close>

theorem xattr_outside_user_namespace:
  assumes "\<not> HasPrefix name XATTR_USER_PREFIX"
  shows "getxattr getXattr d creds \<lparr>gx_Name = name, gx_Size = sz\<rparr> =
           (Inl (case checkPermissions d creds MayRead of Some err \<Rightarrow> err | None \<Rightarrow> EOPNOTSUPP), [])
       \<and> setxattr setXattr d creds \<lparr>sx_Name = name, sx_Value = v, sx_Flags = flags\<rparr> =
           (Some (case checkPermissions d creds MayWrite of Some err \<Rightarrow> err | None \<Rightarrow> EOPNOTSUPP), [])
       \<and> removexattr removeXattr d creds name =
           (Some (case checkPermissions d creds MayWrite of Some err \<Rightarrow> err | None \<Rightarrow> EOPNOTSUPP), [])"
  using assms
  by (simp add: getxattr_def setxattr_def removexattr_def split: option.splits)

theorem xattr_outside_user_namespace_witness:
  "\<not> HasPrefix ''security.selinux'' XATTR_USER_PREFIX \<and>
   checkPermissions example_file (example_creds\<lparr>EffectiveKUID := 1000\<rparr>) MayRead = None \<and>
   getxattr example_getXattr example_file (example_creds\<lparr>EffectiveKUID := 1000\<rparr>)
     \<lparr>gx_Name = ''security.selinux'', gx_Size = 0\<rparr> = (Inl EOPNOTSUPP, []) \<and>
   setxattr example_setXattr example_file (example_creds\<lparr>EffectiveKUID := 1000\<rparr>)
     \<lparr>sx_Name = ''security.selinux'', sx_Value = ''x'', sx_Flags = 0\<rparr> = (Some EOPNOTSUPP, []) \<and>
   removexattr example_removeXattr example_file (example_creds\<lparr>EffectiveKUID := 1000\<rparr>)
     ''security.selinux'' = (Some EOPNOTSUPP, [])"
proof -
  have h: "\<not> HasPrefix ''security.selinux'' XATTR_USER_PREFIX"
    by (simp add: HasPrefix_def XATTR_USER_PREFIX_def)
  have r: "checkPermissions example_file (example_creds\<lparr>EffectiveKUID := 1000\<rparr>) MayRead = None"
    by (simp add: checkPermissions_def GenericCheckPermissions_def Let_def example_file_def
        example_creds_def MayRead_def)
  have w: "checkPermissions example_file (example_creds\<lparr>EffectiveKUID := 1000\<rparr>) MayWrite = None"
    by (simp add: checkPermissions_def GenericCheckPermissions_def Let_def example_file_def
        example_creds_def MayWrite_def)
  show ?thesis
    using h r w
      xattr_outside_user_namespace [OF h, of example_getXattr example_file
        "example_creds\<lparr>EffectiveKUID := 1000\<rparr>" 0 example_setXattr "''x''" 0 example_removeXattr]
    by simp
qed

subsection \<open>The handle upgrade: host file descriptor on one side only\<close>

text \<open>
  C1: when \<open>ensureSharedHandle\<close> opens a new handle while an old handle is open, and
  exactly one of the two has a host file descriptor, it fails with EIO; the new handle
  is closed, and the dentry (its installed handle, \<open>handleReadable\<close>,
  \<open>handleWritable\<close>) is as before.
\<close>

theorem ensureSharedHandle_incompatible_EIO:
  assumes upgrade: "(read \<and> \<not> handleReadable d) \<or> (write \<and> \<not> handleWritable d) \<or> trunc"
    and opened: "openHandle env (file_d d) (handleReadable d \<or> read) (handleWritable d \<or> write) trunc
                   = Inr h"
    and old: "file_h (handle d) \<noteq> None"
    and mismatch: "(0 \<le>s fd (handle d)) \<noteq> (0 \<le>s fd h)"
  shows "ensureSharedHandle fsopts env d read write trunc =
           (Some EIO, d,
            [Ev_openHandle (file_d d) (handleReadable d \<or> read) (handleWritable d \<or> write) trunc,
             Ev_Warningf, Ev_handle_close h])"
proof -
  have fast: "\<not> (\<not> trunc \<and> (\<not> read \<or> handleReadable d) \<and> (\<not> write \<or> handleWritable d))"
    using upgrade by blast
  show ?thesis
    unfolding ensureSharedHandle_def
    using fast upgrade opened old mismatch
    by (simp add: Let_def)
qed

theorem ensureSharedHandle_incompatible_EIO_witness:
  "file_h (handle example_file) \<noteq> None \<and>
   (0 \<le>s fd (handle example_file)) \<and> \<not> (0 \<le>s fd \<lparr>file_h = Some 9, fd = - 1\<rparr>) \<and>
   ensureSharedHandle (example_opts InteropModeExclusive) example_handle_env example_file True True False
     = (Some EIO, example_file,
        [Ev_openHandle (Some 7) True True False, Ev_Warningf,
         Ev_handle_close \<lparr>file_h = Some 9, fd = - 1\<rparr>])"
proof -
  have upgrade: "(True \<and> \<not> handleReadable example_file) \<or> (True \<and> \<not> handleWritable example_file) \<or> False"
    by (simp add: example_file_def)
  have opened: "openHandle example_handle_env (file_d example_file) (handleReadable example_file \<or> True)
                  (handleWritable example_file \<or> True) False = Inr \<lparr>file_h = Some 9, fd = - 1\<rparr>"
    by (simp add: example_handle_env_def)
  have old: "file_h (handle example_file) \<noteq> None"
    by (simp add: example_file_def)
  have o: "0 \<le>s fd (handle example_file)" by (simp add: example_file_def word_sle_eq)
  have n: "\<not> (0 \<le>s fd \<lparr>file_h = Some 9, fd = - 1 :: 32 word\<rparr>)" by (simp add: word_sle_eq)
  have mismatch: "(0 \<le>s fd (handle example_file)) \<noteq> (0 \<le>s fd \<lparr>file_h = Some 9, fd = - 1 :: 32 word\<rparr>)"
    using o n by simp
  show ?thesis
    using old o n ensureSharedHandle_incompatible_EIO [OF upgrade opened old mismatch]
    by (simp add: example_file_def)
qed

subsection \<open>DecRef and the bound of the dentry cache\<close>

lemma lru_ok_alt:
  "lru_ok w \<longleftrightarrow>
     distinct (cachedDentries w)
     \<and> length (cachedDentries w) = unat (cachedDentriesLen w)
     \<and> (\<forall>i. i \<in> set (cachedDentries w) \<longleftrightarrow> i < length (cached_of w) \<and> cached_of w ! i)
     \<and> length (cached_of w) < 2 ^ 64"
proof -
  have 1: "set (filter (\<lambda>i. cached (heap w ! i)) [0..<length (heap w)]) =
             {i. i < length (heap w) \<and> cached_of w ! i}"
    by (auto simp: cached_of_def)
  have 2: "length (cached_of w) = length (heap w)"
    by (simp add: cached_of_def)
  show ?thesis
    unfolding lru_ok_def 1 by (simp only: set_eq_iff mem_Collect_eq 2)
qed

lemma lru_bounded_cong:
  "cachedDentries w' = cachedDentries w \<Longrightarrow> cachedDentriesLen w' = cachedDentriesLen w \<Longrightarrow>
   cached_of w' = cached_of w \<Longrightarrow> opts w' = opts w \<Longrightarrow> lru_bounded w' = lru_bounded w"
  by (simp add: lru_bounded_def lru_ok_alt)

lemma cached_of_upd: "cached_of (upd i f w) = (cached_of w)[i := cached (f (heap w ! i))]"
  by (simp add: cached_of_def upd_def map_update)

lemma cached_of_upd_keep:
  assumes "\<And>x. cached (f x) = cached x"
  shows "cached_of (upd i f w) = cached_of w"
proof -
  have "(map cached (heap w))[i := cached (heap w ! i)] = map cached (heap w)"
    by (cases "i < length (heap w)") (simp_all add: list_update_same_conv list_update_beyond)
  then show ?thesis by (simp add: cached_of_def upd_def map_update assms)
qed

lemma cached_of_fields [simp]:
  "cached_of (w\<lparr>cachedDentries := a\<rparr>) = cached_of w"
  "cached_of (w\<lparr>cachedDentriesLen := b\<rparr>) = cached_of w"
  "cached_of (w\<lparr>dentries := c\<rparr>) = cached_of w"
  "cached_of (w\<lparr>trace := e\<rparr>) = cached_of w"
  by (simp_all add: cached_of_def)

lemma upd_fields [simp]:
  "cachedDentries (upd i f w) = cachedDentries w"
  "cachedDentriesLen (upd i f w) = cachedDentriesLen w"
  "opts (upd i f w) = opts w"
  "trace (upd i f w) = trace w"
  "dentries (upd i f w) = dentries w"
  by (simp_all add: upd_def)

lemma emit_fields [simp]:
  "cachedDentries (emit e w) = cachedDentries w"
  "cachedDentriesLen (emit e w) = cachedDentriesLen w"
  "opts (emit e w) = opts w"
  "cached_of (emit e w) = cached_of w"
  "trace (emit e w) = trace w @ [e]"
  by (simp_all add: emit_def)

lemma counts_fields [simp]:
  "evictions (upd i f w) = evictions w"
  "invocations (upd i f w) = invocations w"
  "evictions (w\<lparr>cachedDentries := a\<rparr>) = evictions w"
  "invocations (w\<lparr>cachedDentries := a\<rparr>) = invocations w"
  "evictions (w\<lparr>cachedDentriesLen := b\<rparr>) = evictions w"
  "invocations (w\<lparr>cachedDentriesLen := b\<rparr>) = invocations w"
  "evictions (w\<lparr>dentries := c\<rparr>) = evictions w"
  "invocations (w\<lparr>dentries := c\<rparr>) = invocations w"
  "evictions (emit e w) = evictions w + (if is_evict e then 1 else 0)"
  "invocations (emit e w) = invocations w + (if is_check e then 1 else 0)"
  by (simp_all add: evictions_def invocations_def)

lemma remove_cached_fields [simp]:
  "cachedDentries (remove_cached d w) = remove1 d (cachedDentries w)"
  "cachedDentriesLen (remove_cached d w) = cachedDentriesLen w - 1"
  "opts (remove_cached d w) = opts w"
  "cached_of (remove_cached d w) = (cached_of w)[d := False]"
  "evictions (remove_cached d w) = evictions w"
  "invocations (remove_cached d w) = invocations w"
  "length (heap (remove_cached d w)) = length (heap w)"
  by (simp_all add: remove_cached_def cached_of_upd)

lemma push_cached_fields [simp]:
  "cachedDentries (push_cached d w) = d # cachedDentries w"
  "cachedDentriesLen (push_cached d w) = cachedDentriesLen w + 1"
  "opts (push_cached d w) = opts w"
  "cached_of (push_cached d w) = (cached_of w)[d := True]"
  "evictions (push_cached d w) = evictions w"
  "invocations (push_cached d w) = invocations w"
  "length (heap (push_cached d w)) = length (heap w)"
  by (simp_all add: push_cached_def cached_of_upd)

lemma force_delete_victim_fields [simp]:
  "cachedDentries (force_delete_victim d w) = cachedDentries w"
  "cachedDentriesLen (force_delete_victim d w) = cachedDentriesLen w"
  "opts (force_delete_victim d w) = opts w"
  "cached_of (force_delete_victim d w) = cached_of w"
  "evictions (force_delete_victim d w) = evictions w"
  "invocations (force_delete_victim d w) = invocations w"
  by (simp_all add: force_delete_victim_def ForceDeleteDentry_def cached_of_upd_keep)

lemma release_handle_fields [simp]:
  "cachedDentries (release_handle d w) = cachedDentries w"
  "cachedDentriesLen (release_handle d w) = cachedDentriesLen w"
  "opts (release_handle d w) = opts w"
  "cached_of (release_handle d w) = cached_of w"
  "evictions (release_handle d w) = evictions w"
  "invocations (release_handle d w) = invocations w"
  by (simp_all add: release_handle_def Let_def cached_of_upd_keep)

lemma release_file_fields [simp]:
  "cachedDentries (release_file d w) = cachedDentries w"
  "cachedDentriesLen (release_file d w) = cachedDentriesLen w"
  "opts (release_file d w) = opts w"
  "cached_of (release_file d w) = cached_of w"
  "evictions (release_file d w) = evictions w"
  "invocations (release_file d w) = invocations w"
  by (simp_all add: release_file_def cached_of_upd_keep)

lemma mark_destroyed_fields [simp]:
  "cachedDentries (mark_destroyed d w) = cachedDentries w"
  "cachedDentriesLen (mark_destroyed d w) = cachedDentriesLen w"
  "opts (mark_destroyed d w) = opts w"
  "cached_of (mark_destroyed d w) = cached_of w"
  "evictions (mark_destroyed d w) = evictions w"
  "invocations (mark_destroyed d w) = invocations w"
  by (simp_all add: mark_destroyed_def Let_def cached_of_upd_keep)

lemma cached_nth: "i < length (heap w) \<Longrightarrow> cached (heap w ! i) = cached_of w ! i"
  by (simp add: cached_of_def)

lemma length_cached_of [simp]: "length (cached_of w) = length (heap w)"
  by (simp add: cached_of_def)

lemma word_pred_le: "(x :: 64 word) \<noteq> 0 \<Longrightarrow> x - 1 \<le> x"
  by (simp add: word_le_nat_alt unat_minus_one)

lemma remove_cached_ok:
  assumes ok: "lru_ok w" and d: "d < length (heap w)" and c: "cached (heap w ! d)"
  shows "lru_ok (remove_cached d w)"
    and "cachedDentriesLen (remove_cached d w) \<le> cachedDentriesLen w"
proof -
  from ok have dist: "distinct (cachedDentries w)"
    and len: "length (cachedDentries w) = unat (cachedDentriesLen w)"
    and mem: "\<And>i. i \<in> set (cachedDentries w) \<longleftrightarrow> i < length (heap w) \<and> cached_of w ! i"
    and hp: "length (heap w) < 2 ^ 64"
    by (simp_all add: lru_ok_alt)
  have din: "d \<in> set (cachedDentries w)"
    using d c by (simp only: mem cached_nth simp_thms)
  have pos: "0 < length (cachedDentries w)"
    using din by (cases "cachedDentries w") simp_all
  have nz: "cachedDentriesLen w \<noteq> 0"
  proof
    assume "cachedDentriesLen w = 0"
    then have "unat (cachedDentriesLen w) = 0" by simp
    then show False using pos len by linarith
  qed
  have "length (remove1 d (cachedDentries w)) = length (cachedDentries w) - 1"
    using din by (simp only: length_remove1 if_True)
  also have "\<dots> = unat (cachedDentriesLen w) - 1" by (simp only: len)
  also have "\<dots> = unat (cachedDentriesLen w - 1)"
    using nz by (rule unat_minus_one [symmetric])
  finally have l': "length (remove1 d (cachedDentries w)) = unat (cachedDentriesLen w - 1)" .
  have m': "i \<in> set (remove1 d (cachedDentries w)) \<longleftrightarrow>
              i < length (heap w) \<and> (cached_of w)[d := False] ! i" for i
  proof (cases "i = d")
    case True
    then show ?thesis using dist d by simp
  next
    case False
    have "i \<in> set (remove1 d (cachedDentries w)) \<longleftrightarrow> i \<in> set (cachedDentries w)"
      using False dist by simp
    also have "\<dots> \<longleftrightarrow> i < length (heap w) \<and> cached_of w ! i" by (rule mem)
    also have "\<dots> \<longleftrightarrow> i < length (heap w) \<and> (cached_of w)[d := False] ! i"
      using False by simp
    finally show ?thesis .
  qed
  have d': "distinct (remove1 d (cachedDentries w))" using dist by simp
  show "lru_ok (remove_cached d w)"
  proof (unfold lru_ok_alt, intro conjI allI)
    show "distinct (cachedDentries (remove_cached d w))"
      using d' by (simp only: remove_cached_fields)
    show "length (cachedDentries (remove_cached d w)) = unat (cachedDentriesLen (remove_cached d w))"
      using l' by (simp only: remove_cached_fields)
    show "i \<in> set (cachedDentries (remove_cached d w)) \<longleftrightarrow>
            i < length (cached_of (remove_cached d w)) \<and> cached_of (remove_cached d w) ! i" for i
      using m' [of i] by (simp only: remove_cached_fields length_cached_of length_list_update)
    show "length (cached_of (remove_cached d w)) < 2 ^ 64"
      using hp by (simp only: remove_cached_fields length_cached_of length_list_update)
  qed
  show "cachedDentriesLen (remove_cached d w) \<le> cachedDentriesLen w"
    unfolding remove_cached_fields using nz by (rule word_pred_le)
qed

lemma distinct_length_less:
  assumes "distinct xs" and "\<And>i. i \<in> set xs \<Longrightarrow> i < n" and "d < n" and "d \<notin> set xs"
  shows "length xs < n"
proof -
  have "set xs \<subseteq> {..<n} - {d}" using assms by auto
  then have "card (set xs) \<le> card ({..<n} - {d})" by (intro card_mono) auto
  also have "\<dots> = n - 1" using assms(3) by simp
  finally show ?thesis using assms(1,3) by (simp add: distinct_card)
qed

lemma push_cached_ok:
  assumes ok: "lru_ok w" and d: "d < length (heap w)" and c: "\<not> cached (heap w ! d)"
  shows "lru_ok (push_cached d w)"
proof -
  from ok have dist: "distinct (cachedDentries w)"
    and len: "length (cachedDentries w) = unat (cachedDentriesLen w)"
    and mem: "\<And>i. i \<in> set (cachedDentries w) \<longleftrightarrow> i < length (heap w) \<and> cached_of w ! i"
    and hp: "length (heap w) < 2 ^ 64"
    by (simp_all add: lru_ok_alt)
  have dnot: "d \<notin> set (cachedDentries w)" using mem d c by (simp add: cached_nth)
  have "length (cachedDentries w) < length (heap w)"
    using dist mem d dnot by (intro distinct_length_less) auto
  then have "unat (cachedDentriesLen w) + unat (1 :: 64 word) < 2 ^ 64"
    using len hp by simp
  then have "unat (cachedDentriesLen w + 1) = unat (cachedDentriesLen w) + 1"
    by (simp add: unat_add_lem [THEN iffD1])
  then have l': "length (d # cachedDentries w) = unat (cachedDentriesLen w + 1)"
    using len by simp
  have m': "\<And>i. i \<in> set (d # cachedDentries w) \<longleftrightarrow>
                 i < length (heap w) \<and> (cached_of w)[d := True] ! i"
    using mem d by (auto simp: nth_list_update)
  show ?thesis
    using dist dnot l' m' hp by (simp add: lru_ok_alt)
qed

lemma move_front_ok:
  assumes ok: "lru_ok w" and d: "d < length (heap w)" and c: "cached (heap w ! d)"
  shows "lru_ok (w\<lparr>cachedDentries := d # remove1 d (cachedDentries w)\<rparr>)"
proof -
  from ok have dist: "distinct (cachedDentries w)"
    and len: "length (cachedDentries w) = unat (cachedDentriesLen w)"
    and mem: "\<And>i. i \<in> set (cachedDentries w) \<longleftrightarrow> i < length (heap w) \<and> cached_of w ! i"
    and hp: "length (heap w) < 2 ^ 64"
    by (simp_all add: lru_ok_alt)
  have din: "d \<in> set (cachedDentries w)" using mem d c by (simp add: cached_nth)
  then have "length (cachedDentries w) \<noteq> 0" by auto
  then have l': "length (d # remove1 d (cachedDentries w)) = unat (cachedDentriesLen w)"
    using din len by (simp add: length_remove1)
  have m': "\<And>i. i \<in> set (d # remove1 d (cachedDentries w)) \<longleftrightarrow>
                 i < length (heap w) \<and> cached_of w ! i"
    using dist mem din by auto
  show ?thesis
    using dist l' m' hp by (simp add: lru_ok_alt)
qed

lemma lru_postI:
  "lru_bounded w' \<Longrightarrow> opts w' = opts w0 \<Longrightarrow>
   evictions w' + invocations w0 \<le> invocations w' + evictions w0 \<Longrightarrow> lru_post w0 w'"
  by (simp add: lru_post_def)

lemma lru_post_chain:
  "lru_post w2 w' \<Longrightarrow> opts w2 = opts w0 \<Longrightarrow>
   evictions w2 + invocations w0 \<le> invocations w2 + evictions w0 \<Longrightarrow> lru_post w0 w'"
  by (auto simp: lru_post_def)

lemma lru_ok_member:
  "lru_ok w \<Longrightarrow> i \<in> set (cachedDentries w) \<Longrightarrow> i < length (heap w) \<and> cached (heap w ! i)"
  by (simp add: lru_ok_alt cached_nth)

lemma remove_cached_bounded:
  assumes "lru_bounded w" and "d < length (heap w)" and "cached (heap w ! d)"
  shows "lru_bounded (remove_cached d w)"
proof -
  have ok: "lru_ok w" and b: "cachedDentriesLen w \<le> maxCachedDentries (opts w)"
    using assms(1) by (simp_all add: lru_bounded_def)
  have "cachedDentriesLen (remove_cached d w) \<le> cachedDentriesLen w"
    using ok assms(2,3) by (rule remove_cached_ok(2))
  then have "cachedDentriesLen (remove_cached d w) \<le> maxCachedDentries (opts w)"
    using b by (rule order_trans)
  moreover have "lru_ok (remove_cached d w)"
    using ok assms(2,3) by (rule remove_cached_ok(1))
  ultimately show ?thesis
    unfolding lru_bounded_def by (simp only: remove_cached_fields simp_thms)
qed

lemma move_front_bounded:
  assumes "lru_bounded w" and "d < length (heap w)" and "cached (heap w ! d)"
  shows "lru_bounded (w\<lparr>cachedDentries := d # remove1 d (cachedDentries w)\<rparr>)"
proof -
  have ok: "lru_ok w" and b: "cachedDentriesLen w \<le> maxCachedDentries (opts w)"
    using assms(1) by (simp_all add: lru_bounded_def)
  have "lru_ok (w\<lparr>cachedDentries := d # remove1 d (cachedDentries w)\<rparr>)"
    using ok assms(2,3) by (rule move_front_ok)
  then show ?thesis using b by (simp add: lru_bounded_def)
qed

lemma push_within_bounded:
  assumes "lru_bounded w" and "d < length (heap w)" and "\<not> cached (heap w ! d)"
    and "\<not> maxCachedDentries (opts w) < cachedDentriesLen w + 1"
  shows "lru_bounded (push_cached d w)"
proof -
  have ok: "lru_ok w" using assms(1) by (simp add: lru_bounded_def)
  have "lru_ok (push_cached d w)" using ok assms(2,3) by (rule push_cached_ok)
  then show ?thesis using assms(4) by (simp add: lru_bounded_def)
qed

lemma push_evict_bounded:
  assumes "lru_bounded w" and "d < length (heap w)" and "\<not> cached (heap w ! d)"
  shows "last (cachedDentries (push_cached d w)) < length (heap w)"
    and "lru_bounded (remove_cached (last (cachedDentries (push_cached d w))) (push_cached d w))"
proof -
  let ?p = "push_cached d w"
  let ?v = "last (cachedDentries ?p)"
  have ok: "lru_ok w" and b: "cachedDentriesLen w \<le> maxCachedDentries (opts w)"
    using assms(1) by (simp_all add: lru_bounded_def)
  have okp: "lru_ok ?p" using ok assms(2,3) by (rule push_cached_ok)
  have "?v \<in> set (cachedDentries ?p)" by (simp only: push_cached_fields) (rule last_in_set, simp)
  from lru_ok_member [OF okp this]
  have v: "?v < length (heap ?p)" and c: "cached (heap ?p ! ?v)" by simp_all
  show "?v < length (heap w)" using v by simp
  have "lru_ok (remove_cached ?v ?p)" using okp v c by (rule remove_cached_ok(1))
  moreover have "cachedDentriesLen (remove_cached ?v ?p) = cachedDentriesLen w" by simp
  ultimately show "lru_bounded (remove_cached ?v ?p)"
    using b by (simp add: lru_bounded_def)
qed

lemma emit_bounded: "lru_bounded (emit e w) = lru_bounded w"
  by (rule lru_bounded_cong) simp_all

lemma force_delete_victim_bounded: "lru_bounded (force_delete_victim v w) = lru_bounded w"
  by (rule lru_bounded_cong) simp_all

lemma mark_destroyed_bounded: "lru_bounded (mark_destroyed d w) = lru_bounded w"
  by (rule lru_bounded_cong) simp_all

lemma upd_refs_bounded: "lru_bounded (upd p (\<lambda>x. x\<lparr>refs := r\<rparr>) w) = lru_bounded w"
  by (rule lru_bounded_cong) (simp_all add: cached_of_upd_keep)

lemma check_step:
  assumes IH1: "\<And>x. \<lbrakk>\<not> length (heap w0) \<le> d; x = emit (Ev_checkCachingLocked d) w0;
            \<not> 0 <s refs (heap x ! d); refs (heap x ! d) \<noteq> - 1;
            parent (heap x ! d) = None \<or> disowned (heap x ! d)\<rbrakk>
           \<Longrightarrow> destroy_ok d (if cached (heap x ! d) then remove_cached d x else x)"
    and IH2: "\<And>x xa xb xc.
          \<lbrakk>\<not> length (heap w0) \<le> d; x = emit (Ev_checkCachingLocked d) w0;
           \<not> 0 <s refs (heap x ! d); refs (heap x ! d) \<noteq> - 1;
           \<not> (parent (heap x ! d) = None \<or> disowned (heap x ! d));
           \<not> cached (heap x ! d); xa = push_cached d x;
           maxCachedDentries (opts xa) < cachedDentriesLen xa;
           xb = last (cachedDentries xa); \<not> length (heap xa) \<le> xb;
           xc = emit (Ev_evict xb) (remove_cached xb xa);
           refs (heap xc ! xb) = 0\<rbrakk>
          \<Longrightarrow> destroy_ok xb (force_delete_victim xb xc)"
  shows "check_ok d w0"
proof (unfold check_ok_def, intro impI allI)
  fix w'
  assume inv: "lru_bounded w0" and res: "checkCachingLocked d w0 = Inr w'"
  let ?w = "emit (Ev_checkCachingLocked d) w0"
  have dl: "\<not> length (heap w0) \<le> d"
  proof
    assume "length (heap w0) \<le> d"
    then have "checkCachingLocked d w0 = Inl (Panic ''nil pointer dereference'')"
      by (simp add: checkCachingLocked.simps [of d w0])
    with res show False by simp
  qed
  then have dlt: "d < length (heap ?w)" by simp
  have b1: "lru_bounded ?w" using inv by (simp only: emit_bounded)
  have cnt: "opts ?w = opts w0" "evictions ?w = evictions w0" "invocations ?w = invocations w0 + 1"
    by simp_all
  show "lru_post w0 w'"
  proof (cases "0 <s refs (heap w0 ! d)")
    case True
    with res dl have w': "w' = (if cached (heap w0 ! d) then remove_cached d ?w else ?w)"
      by (simp add: checkCachingLocked.simps [of d w0] Let_def split: if_splits)
    show ?thesis
    proof (cases "cached (heap w0 ! d)")
      case True
      then have "cached (heap ?w ! d)" by simp
      with b1 dlt have "lru_bounded (remove_cached d ?w)" by (rule remove_cached_bounded)
      then show ?thesis using True by (intro lru_postI) (simp_all add: w')
    next
      case False
      then show ?thesis using b1 by (intro lru_postI) (simp_all add: w')
    qed
  next
    case live: False
    show ?thesis
    proof (cases "refs (heap w0 ! d) = - 1")
      case True
      with res dl live have w': "w' = ?w"
        by (simp add: checkCachingLocked.simps [of d w0] Let_def)
      show ?thesis using b1 by (intro lru_postI) (simp_all add: w')
    next
      case nd: False
      show ?thesis
      proof (cases "parent (heap w0 ! d) = None \<or> disowned (heap w0 ! d)")
        case True
        let ?w2 = "if cached (heap ?w ! d) then remove_cached d ?w else ?w"
        from res dl live nd True have r2: "destroyLocked d ?w2 = Inr w'"
          by (simp add: checkCachingLocked.simps [of d w0] Let_def split: if_splits)
        have "destroy_ok d ?w2"
          using dl refl live nd True by (intro IH1) simp_all
        moreover have b2: "lru_bounded ?w2"
          using b1 dlt by (simp add: remove_cached_bounded)
        ultimately have "lru_post ?w2 w'" using r2 by (simp only: destroy_ok_def)
        then show ?thesis
          by (rule lru_post_chain) simp_all
      next
        case par: False
        show ?thesis
        proof (cases "cached (heap w0 ! d)")
          case True
          with res dl live nd par
          have w': "w' = ?w\<lparr>cachedDentries := d # remove1 d (cachedDentries ?w)\<rparr>"
            by (simp add: checkCachingLocked.simps [of d w0] Let_def)
          have "cached (heap ?w ! d)" using True by simp
          with b1 dlt have "lru_bounded (?w\<lparr>cachedDentries := d # remove1 d (cachedDentries ?w)\<rparr>)"
            by (rule move_front_bounded)
          then show ?thesis by (intro lru_postI) (simp_all add: w')
        next
          case nc: False
          let ?p = "push_cached d ?w"
          let ?v = "last (cachedDentries ?p)"
          let ?e = "emit (Ev_evict ?v) (remove_cached ?v ?p)"
          have nc': "\<not> cached (heap ?w ! d)" using nc by simp
          show ?thesis
          proof (cases "maxCachedDentries (opts ?p) < cachedDentriesLen ?p")
            case over: True
            have v: "?v < length (heap ?w)" using b1 dlt nc' by (rule push_evict_bounded(1))
            have be: "lru_bounded ?e"
              using push_evict_bounded(2) [OF b1 dlt nc'] by (simp only: emit_bounded)
            have vp: "\<not> length (heap ?p) \<le> ?v" using v by simp
            show ?thesis
            proof (cases "refs (heap ?e ! ?v) = 0")
              case True
              from res dl live nd par nc over vp True
              have r2: "destroyLocked ?v (force_delete_victim ?v ?e) = Inr w'"
                by (simp add: checkCachingLocked.simps [of d w0] Let_def)
              have "destroy_ok ?v (force_delete_victim ?v ?e)"
                using dl live nd par nc over vp True
                by (intro IH2 [of ?w ?p ?v ?e]) simp_all
              moreover have "lru_bounded (force_delete_victim ?v ?e)"
                using be by (simp only: force_delete_victim_bounded)
              ultimately have "lru_post (force_delete_victim ?v ?e) w'"
                using r2 by (simp only: destroy_ok_def)
              then show ?thesis
                by (rule lru_post_chain) simp_all
            next
              case False
              with res dl live nd par nc over vp have w': "w' = ?e"
                by (simp add: checkCachingLocked.simps [of d w0] Let_def)
              show ?thesis using be by (intro lru_postI) (simp_all add: w')
            qed
          next
            case within: False
            with res dl live nd par nc have w': "w' = ?p"
              by (simp add: checkCachingLocked.simps [of d w0] Let_def)
            have "\<not> maxCachedDentries (opts ?w) < cachedDentriesLen ?w + 1"
              using within by simp
            with b1 dlt nc' have "lru_bounded ?p" by (rule push_within_bounded)
            then show ?thesis by (intro lru_postI) (simp_all add: w')
          qed
        qed
      qed
    qed
  qed
qed

lemma destroy_step:
  assumes IH: "\<And>x x2 xa xb.
          \<lbrakk>\<not> length (heap w0) \<le> d; refs (heap w0 ! d) = 0;
           x = mark_destroyed d w0; parent (heap x ! d) = Some x2;
           \<not> length (heap x) \<le> x2; xa = refs (heap x ! x2) - 1;
           xb = upd x2 (refs_update (\<lambda>_. xa)) x; xa = 0\<rbrakk>
          \<Longrightarrow> check_ok x2 xb"
  shows "destroy_ok d w0"
proof (unfold destroy_ok_def, intro impI allI)
  fix w'
  assume inv: "lru_bounded w0" and res: "destroyLocked d w0 = Inr w'"
  let ?w = "mark_destroyed d w0"
  have dl: "\<not> length (heap w0) \<le> d"
  proof
    assume "length (heap w0) \<le> d"
    then have "destroyLocked d w0 = Inl (Panic ''nil pointer dereference'')"
      by (simp add: destroyLocked.simps [of d w0])
    with res show False by simp
  qed
  have r0: "refs (heap w0 ! d) = 0"
  proof (rule ccontr)
    assume "refs (heap w0 ! d) \<noteq> 0"
    with dl have "isl (destroyLocked d w0)"
      by (simp add: destroyLocked.simps [of d w0])
    with res show False by simp
  qed
  have b1: "lru_bounded ?w" using inv by (simp only: mark_destroyed_bounded)
  show "lru_post w0 w'"
  proof (cases "parent (heap ?w ! d)")
    case None
    with res dl r0 have w': "w' = ?w"
      by (simp add: destroyLocked.simps [of d w0] Let_def)
    show ?thesis using b1 by (intro lru_postI) (simp_all add: w')
  next
    case (Some p)
    let ?r = "refs (heap ?w ! p) - 1"
    let ?u = "upd p (\<lambda>x. x\<lparr>refs := ?r\<rparr>) ?w"
    have pl: "\<not> length (heap ?w) \<le> p"
    proof
      assume "length (heap ?w) \<le> p"
      with dl r0 Some have "isl (destroyLocked d w0)"
        by (simp add: destroyLocked.simps [of d w0] Let_def)
      with res show False by simp
    qed
    have bu: "lru_bounded ?u" using b1 by (simp only: upd_refs_bounded)
    show ?thesis
    proof (cases "?r = 0")
      case True
      with res dl r0 Some pl have r2: "checkCachingLocked p ?u = Inr w'"
        by (simp add: destroyLocked.simps [of d w0] Let_def)
      have "check_ok p ?u"
        using dl r0 Some pl True by (intro IH [of ?w p ?r ?u]) simp_all
      then have "lru_post ?u w'" using bu r2 by (simp only: check_ok_def)
      then show ?thesis by (rule lru_post_chain) simp_all
    next
      case False
      with res dl r0 Some pl have w': "w' = ?u"
        by (simp add: destroyLocked.simps [of d w0] Let_def split: if_splits)
      show ?thesis using bu by (intro lru_postI) (simp_all add: w')
    qed
  qed
qed

lemma check_destroy_ok: "check_ok d w" "destroy_ok d' w'"
proof (induction d w and d' w' rule: checkCachingLocked_destroyLocked.induct)
  case (1 d w0)
  show ?case by (rule check_step) (fact "1.IH")+
next
  case (2 d w0)
  show ?case by (rule destroy_step) (fact "2.IH")
qed

lemma example_world_dentries: "{0, Suc 0, 2, 3} - {2} - {3} = {0, Suc 0 :: nat}"
  by auto

lemma DecRef_example: "DecRef 3 example_world = Inr example_world_after"
  by (simp add: DecRef_def example_world_def example_world_after_def example_dentry_def upd_def
      Let_def checkCachingLocked.simps destroyLocked.simps emit_def push_cached_def
      remove_cached_def force_delete_victim_def ForceDeleteDentry_def mark_destroyed_def
      release_handle_def release_file_def word_sless_alt example_world_dentries)

lemma example_world_ok:
  "lru_ok example_world \<and> cachedDentriesLen example_world \<le> maxCachedDentries (opts example_world)"
  by (simp add: lru_ok_def example_world_def example_dentry_def)

text \<open>
  C3, as stated: after a \<open>DecRef\<close> that reaches zero, at most one eviction has been
  performed. On the example, dropping the last reference on D caches D and evicts X;
  destroying X drops the last reference on its parent P, whose own
  \<open>checkCachingLocked\<close> caches P and evicts D: two evictions in one \<open>DecRef\<close>.
\<close>

theorem DecRef_two_evictions_counterexample:
  "refs (heap example_world ! 3) = 1 \<and>
   lru_ok example_world \<and>
   cachedDentriesLen example_world \<le> maxCachedDentries (opts example_world) \<and>
   DecRef 3 example_world = Inr example_world_after \<and>
   filter is_evict (trace example_world) = [] \<and>
   filter is_evict (trace example_world_after) = [Ev_evict 2, Ev_evict 3] \<and>
   \<not> evictions example_world_after \<le> 1"
  using example_world_ok DecRef_example
  by (simp add: evictions_def example_world_after_def) (simp add: example_world_def example_dentry_def)

text \<open>
  C3, amended: if the cache is consistent and within the cap before, then after a
  \<open>DecRef\<close> that returns, the LRU list holds at most \<open>maxCachedDentries\<close> dentries and
  the cache is consistent again. One run of \<open>checkCachingLocked\<close> evicts at most one
  tail victim (it does not loop), but destroying the victim can run
  \<open>checkCachingLocked\<close> on its parent, which can evict again: the evictions of one
  \<open>DecRef\<close> are at most as many as the runs of \<open>checkCachingLocked\<close> it causes.
\<close>

theorem DecRef_lru_bounded:
  assumes "lru_ok w" and "cachedDentriesLen w \<le> maxCachedDentries (opts w)"
    and "DecRef d w = Inr w'"
  shows "length (cachedDentries w') \<le> unat (maxCachedDentries (opts w'))
     \<and> lru_ok w' \<and> opts w' = opts w
     \<and> evictions w' + invocations w \<le> invocations w' + evictions w"
proof -
  have inv: "lru_bounded w" using assms(1,2) by (simp add: lru_bounded_def)
  let ?r = "refs (heap w ! d) - 1"
  let ?u = "upd d (\<lambda>x. x\<lparr>refs := ?r\<rparr>) w"
  have bu: "lru_bounded ?u" using inv by (simp only: upd_refs_bounded)
  have dl: "\<not> length (heap w) \<le> d"
  proof
    assume "length (heap w) \<le> d"
    then have "isl (DecRef d w)" by (simp add: DecRef_def)
    with assms(3) show False by simp
  qed
  have post: "lru_post w w'"
  proof (cases "?r = 0")
    case True
    with assms(3) dl have "checkCachingLocked d ?u = Inr w'"
      by (simp add: DecRef_def Let_def)
    with bu check_destroy_ok(1) [of d ?u] have "lru_post ?u w'"
      by (simp only: check_ok_def)
    then show ?thesis by (rule lru_post_chain) simp_all
  next
    case False
    with assms(3) dl have w': "w' = ?u"
      by (simp add: DecRef_def Let_def split: if_splits)
    show ?thesis using bu by (intro lru_postI) (simp_all add: w')
  qed
  then have ok: "lru_ok w'" and b: "cachedDentriesLen w' \<le> maxCachedDentries (opts w')"
    and o: "opts w' = opts w"
    and c: "evictions w' + invocations w \<le> invocations w' + evictions w"
    unfolding lru_post_def lru_bounded_def by blast+
  have "length (cachedDentries w') = unat (cachedDentriesLen w')"
    using ok by (simp add: lru_ok_def)
  then have "length (cachedDentries w') \<le> unat (maxCachedDentries (opts w'))"
    using b by (simp add: word_le_nat_alt)
  then show ?thesis using ok o c by blast
qed

theorem DecRef_lru_bounded_witness:
  "lru_ok example_world \<and>
   cachedDentriesLen example_world \<le> maxCachedDentries (opts example_world) \<and>
   DecRef 3 example_world = Inr example_world_after \<and>
   length (cachedDentries example_world_after) \<le> unat (maxCachedDentries (opts example_world_after)) \<and>
   evictions example_world_after + invocations example_world
     \<le> invocations example_world_after + evictions example_world"
proof -
  have h1: "lru_ok example_world"
    and h2: "cachedDentriesLen example_world \<le> maxCachedDentries (opts example_world)"
    using example_world_ok by simp_all
  show ?thesis
    using h1 h2 DecRef_example DecRef_lru_bounded [OF h1 h2 DecRef_example]
    by blast
qed

end
